theory Spec2Isabelle
  imports Main "HOL-Library.Sublist"
begin

section \<open>The action runner of \<^verbatim>\<open>app/lib/runtime/action-runner.ts\<close>\<close>

text \<open>
  A shallow embedding of the action execution orchestrator. Promises are modelled by
  their outcome (fulfilled, or rejected with an error value), the store and the other
  mutable fields of the runner by explicit state passing, the external collaborators
  (shell, container filesystem, build process, editor tool, JSON and schema parsers) by an
  environment record of oracles.
\<close>

subsection \<open>JavaScript strings\<close>

text \<open>
  A JavaScript string is a sequence of code units; the operations the source uses
  (\<^verbatim>\<open>startsWith\<close>, \<^verbatim>\<open>slice\<close>, \<^verbatim>\<open>includes\<close>, \<^verbatim>\<open>replace\<close> with a string pattern,
  \<^verbatim>\<open>split\<close>, \<^verbatim>\<open>join\<close>) work unit by unit, so a string is a \<^typ>\<open>char list\<close> here.
\<close>

definition LF :: char where
  "LF = CHR 0x0A"

definition CR :: char where
  "CR = CHR 0x0D"

definition startsWith :: "string \<Rightarrow> string \<Rightarrow> bool" where
  "startsWith s p = (take (length p) s = p)"

text \<open>\<^verbatim>\<open>s.slice(n)\<close> for \<open>n \<ge> 0\<close>.\<close>

definition slice :: "string \<Rightarrow> nat \<Rightarrow> string" where
  "slice s n = drop n s"

fun js_includes :: "string \<Rightarrow> string \<Rightarrow> bool" where
  "js_includes [] p = (p = [])"
| "js_includes (x # xs) p = (startsWith (x # xs) p \<or> js_includes xs p)"

text \<open>
  \<^verbatim>\<open>s.replace(pat, rep)\<close> with a string pattern replaces the first occurrence only.
\<close>

fun js_replace :: "string \<Rightarrow> string \<Rightarrow> string \<Rightarrow> string" where
  "js_replace [] pat rep = (if pat = [] then rep else [])"
| "js_replace (x # xs) pat rep =
     (if startsWith (x # xs) pat then rep @ drop (length pat) (x # xs)
      else x # js_replace xs pat rep)"

text \<open>\<^verbatim>\<open>s.split(c)\<close> for a separator of one code unit: never the empty array.\<close>

fun js_split :: "string \<Rightarrow> char \<Rightarrow> string list" where
  "js_split [] c = [[]]"
| "js_split (x # xs) c =
     (if x = c then [] # js_split xs c
      else (case js_split xs c of
              [] \<Rightarrow> [[x]]
            | l # ls \<Rightarrow> (x # l) # ls))"

fun js_join :: "string list \<Rightarrow> string \<Rightarrow> string" where
  "js_join [] sep = []"
| "js_join [l] sep = l"
| "js_join (l # ls) sep = l @ sep @ js_join ls sep"

subsection \<open>Errors\<close>

text \<open>
  Every value the code throws or receives from a collaborator as an exception.
  \<open>ActionCommandError header output\<close> is \<^verbatim>\<open>new ActionCommandError(header, output)\<close>
  (the class stores both arguments in read-only fields and computes its message from
  them); \<open>Error m\<close> is \<^verbatim>\<open>new Error(m)\<close>; \<open>TypeError m\<close> is the engine's error for a
  property read or a call on \<^verbatim>\<open>undefined\<close>; \<open>Thrown t\<close> is any other value a
  collaborator throws that has a \<^verbatim>\<open>toString\<close> method, with \<open>t\<close> the text the method
  gives; \<open>Nullish\<close> is \<^verbatim>\<open>undefined\<close> or \<^verbatim>\<open>null\<close> thrown or given as the reason of a
  rejection, a value that has no method to call (it stands for any thrown value on
  which the call \<^verbatim>\<open>e.toString()\<close> throws).
\<close>

datatype error =
    ActionCommandError string string
  | Error string
  | TypeError string
  | Thrown string
  | Nullish

definition read_of_undefined :: error where
  "read_of_undefined = TypeError ''Cannot read properties of undefined''"

fun err_header :: "error \<Rightarrow> string" where
  "err_header (ActionCommandError h out) = h"
| "err_header e = []"

fun err_output :: "error \<Rightarrow> string" where
  "err_output (ActionCommandError h out) = out"
| "err_output e = []"

text \<open>
  The \<^verbatim>\<open>message\<close> field; for the classified error the constructor's \<^verbatim>\<open>formattedMessage\<close>
  (and the empty text for the value that has no field).
\<close>

fun message :: "error \<Rightarrow> string" where
  "message (ActionCommandError h out) =
     ''Failed To Execute Shell Command: '' @ h @ [LF, LF] @ ''Output:'' @ [LF] @ out"
| "message (Error m) = m"
| "message (TypeError m) = m"
| "message (Thrown t) = t"
| "message Nullish = []"

text \<open>\<^verbatim>\<open>error instanceof ActionCommandError\<close>.\<close>

fun instanceof_ActionCommandError :: "error \<Rightarrow> bool" where
  "instanceof_ActionCommandError (ActionCommandError h out) = True"
| "instanceof_ActionCommandError e = False"

text \<open>
  \<^verbatim>\<open>e.toString()\<close>: \<^verbatim>\<open>Error.prototype.toString\<close> gives the name alone when the message is
  empty, and \<^verbatim>\<open>name + ": " + message\<close> otherwise. On \<^verbatim>\<open>undefined\<close> and \<^verbatim>\<open>null\<close> the call
  itself throws.
\<close>

definition named_toString :: "string \<Rightarrow> string \<Rightarrow> string" where
  "named_toString name m = (if m = [] then name else name @ '': '' @ m)"

fun toString :: "error \<Rightarrow> error + string" where
  "toString (ActionCommandError h out) =
     Inr (named_toString ''ActionCommandError'' (message (ActionCommandError h out)))"
| "toString (Error m) = Inr (named_toString ''Error'' m)"
| "toString (TypeError m) = Inr (named_toString ''TypeError'' m)"
| "toString (Thrown t) = Inr t"
| "toString Nullish = Inl read_of_undefined"

subsection \<open>Output cleaning\<close>

definition BANNED_LINES :: "string list" where
  "BANNED_LINES =
     [''Preparing Convex functions...'',
      ''Checking that documents match your schema...'',
      ''transforming ('',
      ''computing gzip size'']"

definition cleanConvexOutput :: "string \<Rightarrow> string \<Rightarrow> string" where
  "cleanConvexOutput command out =
     (if command \<noteq> ''npm run lint'' then out
      else
        let normalizedNewlines = js_replace (js_replace out [CR, LF] [LF]) [CR] [LF];
            result =
              js_join
                (filter (\<lambda>line. \<not> list_ex (\<lambda>bannedLine. js_includes line bannedLine) BANNED_LINES)
                   (js_split normalizedNewlines LF))
                [LF]
        in result)"

text \<open>
  The cleaning rule in the words of the specification: the lines of the output (its
  pieces between line feeds) without those that contain a banned substring, in their
  order, joined by line feeds again.
\<close>

definition banned :: "string \<Rightarrow> bool" where
  "banned line = (\<exists>b \<in> set BANNED_LINES. sublist b line)"

definition omit_banned_lines :: "string \<Rightarrow> string" where
  "omit_banned_lines out = js_join (filter (\<lambda>line. \<not> banned line) (js_split out LF)) [LF]"

subsection \<open>Actions, the store and the runner\<close>

datatype ActionType = Shell | NpmInstall | NpmExec | File | Build | Start | Convex | ToolUse

datatype ActionStatus = Pending | Running | Complete | Aborted | Failed

text \<open>
  \<^verbatim>\<open>BoltAction\<close> is declared in \<^verbatim>\<open>~/types/actions\<close>; the runner reads its \<^verbatim>\<open>type\<close>,
  \<^verbatim>\<open>content\<close> and, for a file action, \<^verbatim>\<open>filePath\<close>. These are objects of the running
  program, where any field may be missing: \<open>None\<close> is a field that reads as
  \<^verbatim>\<open>undefined\<close>.
\<close>

record BoltAction =
  atype :: "ActionType option"
  content :: "string option"
  filePath :: "string option"

text \<open>
  \<^verbatim>\<open>ActionState\<close>, again with every field optional: the store can come to hold objects
  that were never built by a registration and lack some of the fields. The \<^verbatim>\<open>abort\<close>
  closure and the \<^verbatim>\<open>abortSignal\<close> of an action are set together, and both belong to the
  \<^verbatim>\<open>AbortController\<close> made when the action was registered; copies of the state (object
  spreads) share it. The field \<open>abortSignal\<close> is the controller's key in the runner's
  table of controllers, which is the identifier the action was registered under.
\<close>

record ActionState = BoltAction +
  status :: "ActionStatus option"
  executed :: "bool option"
  abortSignal :: "string option"
  error :: "string option"

text \<open>An object with none of these fields.\<close>

definition no_fields :: ActionState where
  "no_fields =
     \<lparr>atype = None, content = None, filePath = None,
      status = None, executed = None, abortSignal = None, error = None\<rparr>"

text \<open>\<^verbatim>\<open>ActionAlert\<close>: type, title, description, content.\<close>

datatype ActionAlert = ActionAlert string string string string

text \<open>
  What \<^verbatim>\<open>logger.error\<close> and \<^verbatim>\<open>console.error\<close> receive (debug and info output is not
  modelled): a notice, the dispatcher's "Action failed" entry with the action type and
  the exception, the entry of a best-effort file step, the tool bridge's entry and the
  entry of the execution chain's catch.
\<close>

datatype log_entry =
    Notice string
  | ActionFailed "ActionType option" error
  | FileStepFailed string error
  | ToolCallError error
  | ChainCaught error

text \<open>
  A reaction waiting on \<^verbatim>\<open>#currentExecutionPromise\<close>: the status update scheduled by
  \<^verbatim>\<open>addAction\<close>, or the unit of work appended by \<^verbatim>\<open>runAction\<close> (the call of
  \<^verbatim>\<open>#executeAction\<close> with the chain's catch).
\<close>

datatype work = MarkRunning string | Execute string bool

record ActionRunner =
  actions :: "string \<rightharpoonup> ActionState"
  abortControllers :: "string \<Rightarrow> bool"
  currentExecutionPromise :: "work list"
  onAlert :: bool
  alerts :: "ActionAlert list"
  buildOutput :: "(string \<times> int \<times> string) option"
  toolCalls :: "string \<rightharpoonup> string option"
  launched :: "(string \<times> ActionState) list"
  shellCommands :: "string option list"
  fileWrites :: "(string \<times> string option) list"
  log :: "log_entry list"

text \<open>
  \<open>actions\<close> holds the own properties of the store object; \<open>abortControllers k\<close> is
  \<^verbatim>\<open>signal.aborted\<close> of controller \<open>k\<close>;
  \<open>currentExecutionPromise\<close> holds the reactions that have not run yet, in the order
  they were attached (a reaction attached later runs later: each is attached to the
  tail of the chain at that moment); \<open>onAlert\<close> says whether the optional callback was
  supplied and \<open>alerts\<close> lists the alerts it has been called with; \<open>toolCalls\<close> maps a
  tool call id to its future (\<open>Some None\<close> while pending, \<open>Some (Some v)\<close> once resolved
  with \<open>v\<close>); \<open>launched\<close> holds the start actions whose process has been launched and
  whose completion handlers have not run; \<open>shellCommands\<close> and \<open>fileWrites\<close> record the
  commands given to the shell and the files written (\<open>None\<close> where the code passes an
  \<^verbatim>\<open>undefined\<close> content on).
\<close>

subsection \<open>The collaborators\<close>

text \<open>
  One call of \<^verbatim>\<open>shell.executeCommand\<close>: whether the shell invoked the abort hook it was
  given, the call's result (rejected, or resolved with \<^verbatim>\<open>undefined\<close> or with an exit code
  and the captured output), and the call's result in case the hook it invoked throws.
\<close>

record ShellCall =
  abortFired :: bool
  response :: "error + (int \<times> string) option"
  hookThrows :: "error \<Rightarrow> error + (int \<times> string) option"

text \<open>
  The \<^verbatim>\<open>state\<close> of a tool invocation: \<^verbatim>\<open>partial-call\<close>, \<^verbatim>\<open>result\<close>, and \<open>Call\<close> for
  \<^verbatim>\<open>call\<close> and every other value, which the code does not tell apart.
\<close>

datatype ToolState = PartialCall | Call | Result

record ToolInvocation =
  state :: ToolState
  toolCallId :: string
  toolName :: string
  args :: string

text \<open>
  The environment. \<open>unreachable\<close> is the helper of \<^verbatim>\<open>~/utils/unreachable\<close>, which lives
  outside this module: \<open>Some e\<close> when it throws \<open>e\<close>, \<open>None\<close> when it returns.
  \<open>shellReady\<close> is the outcome of obtaining the shell (for a start action this includes
  the guard on a missing shell getter) and awaiting \<^verbatim>\<open>shell.ready()\<close>;
  \<open>shellAttached\<close> says whether the shell has its terminal and process;
  \<open>executeCommand n c\<close> is the shell's answer to command \<open>c\<close> when \<open>n\<close> commands were
  given before. \<open>webcontainer\<close> is the awaited container (its working directory) or the
  rejection. The path functions are those of \<^verbatim>\<open>~/utils/path\<close>; \<open>spawnBuild\<close> gives the
  exit code of \<^verbatim>\<open>npm run build\<close> and the output accumulated when it exits.
  \<open>parseToolInvocation\<close> is \<^verbatim>\<open>JSON.parse\<close> with the reads of \<^verbatim>\<open>state\<close>, \<^verbatim>\<open>toolCallId\<close>,
  \<^verbatim>\<open>toolName\<close> and \<^verbatim>\<open>args\<close> from what it returns (\<open>Inl\<close> where the parse throws, or the
  first read throws because the parse returned \<^verbatim>\<open>null\<close>); the two
  argument parsers are the schemas of the editor and bash tools, \<open>editor\<close> is the editor
  tool and \<open>numberToString\<close> the text of an exit code in a template literal.
\<close>

record env =
  unreachable :: "string \<Rightarrow> error option"
  shellReady :: "error option"
  shellAttached :: bool
  executeCommand :: "nat \<Rightarrow> string option \<Rightarrow> ShellCall"
  webcontainer :: "error + string"
  relative :: "string \<Rightarrow> string option \<Rightarrow> error + string"
  dirname :: "string \<Rightarrow> string"
  joinPath :: "string \<Rightarrow> string \<Rightarrow> string"
  mkdir :: "string \<Rightarrow> error option"
  writeFile :: "string \<Rightarrow> string option \<Rightarrow> error option"
  spawnBuild :: "error + (int \<times> string)"
  parseToolInvocation :: "string \<Rightarrow> error + ToolInvocation"
  parseEditorArgs :: "string \<Rightarrow> error + string"
  parseBashArgs :: "string \<Rightarrow> error + string"
  editor :: "string \<Rightarrow> error + string"
  numberToString :: "int \<Rightarrow> string"

subsection \<open>The store operations\<close>

text \<open>
  The store is created as \<^verbatim>\<open>map({})\<close>: its value is a plain object, and an action is
  looked up by indexing it, \<^verbatim>\<open>this.actions.get()[actionId]\<close>. Indexing a plain object
  finds its own properties and, for a name that is none of them, the members it
  inherits from \<^verbatim>\<open>Object.prototype\<close>: the names the language standard gives (with its
  annex for web browsers) are listed here. Each member is a function, or for
  \<^verbatim>\<open>__proto__\<close> the prototype object itself: a truthy value that has none of the fields
  of an action state and nothing to spread.
\<close>

definition Object_prototype :: "string list" where
  "Object_prototype =
     [''constructor'', ''hasOwnProperty'', ''isPrototypeOf'', ''propertyIsEnumerable'',
      ''toLocaleString'', ''toString'', ''valueOf'', ''__proto__'', ''__defineGetter__'',
      ''__defineSetter__'', ''__lookupGetter__'', ''__lookupSetter__'']"

text \<open>
  \<^verbatim>\<open>this.actions.get()[actionId]\<close>: \<open>None\<close> is \<^verbatim>\<open>undefined\<close>; an inherited member reads
  as an object without fields.
\<close>

definition actions_get :: "ActionRunner \<Rightarrow> string \<Rightarrow> ActionState option" where
  "actions_get st actionId =
     (case actions st actionId of
        Some a \<Rightarrow> Some a
      | None \<Rightarrow> if actionId \<in> set Object_prototype then Some no_fields else None)"

text \<open>
  \<^verbatim>\<open>updateAction(id, newState)\<close> stores \<^verbatim>\<open>{ ...actions[id], ...newState }\<close> under the key
  (\<^verbatim>\<open>setKey\<close> of the store defines an own property). The merge is given as a function
  on the state; where nothing is found under the key, or an inherited member, there is
  nothing to spread and the merge starts from the object without fields.
\<close>

definition updateAction ::
  "ActionRunner \<Rightarrow> string \<Rightarrow> (ActionState \<Rightarrow> ActionState) \<Rightarrow> ActionRunner" where
  "updateAction st actionId newState =
     st\<lparr>actions := (actions st)(actionId \<mapsto>
           newState (case actions_get st actionId of None \<Rightarrow> no_fields | Some a \<Rightarrow> a))\<rparr>"

text \<open>
  The \<^verbatim>\<open>abort\<close> capability that \<^verbatim>\<open>addAction\<close> stores in the state:
  \<^verbatim>\<open>abortController.abort(); this.updateAction(actionId, { status: 'aborted' })\<close>.
\<close>

definition abort :: "ActionRunner \<Rightarrow> string \<Rightarrow> ActionRunner" where
  "abort st actionId =
     updateAction (st\<lparr>abortControllers := (abortControllers st)(actionId := True)\<rparr>)
       actionId (\<lambda>a. a\<lparr>status := Some Aborted\<rparr>)"

text \<open>
  \<^verbatim>\<open>action.abortSignal.aborted\<close>: \<open>None\<close> when the action has no \<^verbatim>\<open>abortSignal\<close> and the
  read throws.
\<close>

definition signal_aborted :: "ActionRunner \<Rightarrow> ActionState \<Rightarrow> bool option" where
  "signal_aborted st action = map_option (abortControllers st) (abortSignal action)"

text \<open>The state that \<^verbatim>\<open>addAction\<close> stores for a new action.\<close>

definition registered :: "string \<Rightarrow> BoltAction \<Rightarrow> ActionState" where
  "registered actionId d =
     \<lparr>atype = atype d, content = content d, filePath = filePath d,
      status = Some Pending, executed = Some False, abortSignal = Some actionId,
      error = None\<rparr>"

definition addAction :: "ActionRunner \<Rightarrow> string \<Rightarrow> BoltAction \<Rightarrow> ActionRunner" where
  "addAction st actionId d =
     (case actions_get st actionId of
        Some action \<Rightarrow>
          if content action \<noteq> content d
          then updateAction st actionId (\<lambda>a. action\<lparr>content := content d\<rparr>)
          else st
      | None \<Rightarrow>
          st\<lparr>actions := (actions st)(actionId \<mapsto> registered actionId d),
             abortControllers := (abortControllers st)(actionId := False),
             currentExecutionPromise := currentExecutionPromise st @ [MarkRunning actionId]\<rparr>)"

text \<open>\<^verbatim>\<open>{ ...action, ...data.action }\<close>: the fields the update carries replace the stored ones.\<close>

definition spread :: "ActionState \<Rightarrow> BoltAction \<Rightarrow> ActionState" where
  "spread action d =
     action\<lparr>atype := (case atype d of None \<Rightarrow> atype action | Some t \<Rightarrow> Some t),
            content := (case content d of None \<Rightarrow> content action | Some c \<Rightarrow> Some c),
            filePath := (case filePath d of None \<Rightarrow> filePath action | Some p \<Rightarrow> Some p)\<rparr>"

subsection \<open>The strategies\<close>

text \<open>\<^verbatim>\<open>resp?.exitCode != 0\<close> (and \<^verbatim>\<open>!==\<close>): true for a missing response.\<close>

definition exitCode_nonzero :: "(int \<times> string) option \<Rightarrow> bool" where
  "exitCode_nonzero resp = (case resp of None \<Rightarrow> True | Some (exitCode, out) \<Rightarrow> exitCode \<noteq> 0)"

text \<open>\<^verbatim>\<open>resp?.output || fallback\<close>: the fallback for a missing response or an empty output.\<close>

definition output_or :: "(int \<times> string) option \<Rightarrow> string \<Rightarrow> string" where
  "output_or resp fallback =
     (case resp of None \<Rightarrow> fallback | Some (exitCode, out) \<Rightarrow> if out = [] then fallback else out)"

text \<open>
  The call \<^verbatim>\<open>shell.executeCommand(runnerId, command, hook)\<close> where the hook calls the
  \<^verbatim>\<open>abort\<close> capability of the action: the command is recorded, and the capability runs if
  the shell invokes the hook. For an action without the capability the hook throws
  (\<^verbatim>\<open>action.abort\<close> is not a function) and the call ends as the shell lets it end then.
\<close>

definition shell_executeCommand ::
  "env \<Rightarrow> ActionRunner \<Rightarrow> string option \<Rightarrow> string option
     \<Rightarrow> (error + (int \<times> string) option) \<times> ActionRunner" where
  "shell_executeCommand env st command abortKey =
     (let call = executeCommand env (length (shellCommands st)) command;
          st1 = st\<lparr>shellCommands := shellCommands st @ [command]\<rparr>
      in if abortFired call
         then (case abortKey of
                 Some k \<Rightarrow> (response call, abort st1 k)
               | None \<Rightarrow> (hookThrows call (TypeError ''action.abort is not a function''), st1))
         else (response call, st1))"

definition runShellAction :: "env \<Rightarrow> ActionRunner \<Rightarrow> ActionState \<Rightarrow> (error + unit) \<times> ActionRunner" where
  "runShellAction env st action =
     (case (if atype action \<noteq> Some Shell then unreachable env ''Expected shell action'' else None) of
        Some e \<Rightarrow> (Inl e, st)
      | None \<Rightarrow>
     (case shellReady env of
        Some e \<Rightarrow> (Inl e, st)
      | None \<Rightarrow>
     (case (if \<not> shellAttached env then unreachable env ''Shell terminal not found'' else None) of
        Some e \<Rightarrow> (Inl e, st)
      | None \<Rightarrow>
     (case shell_executeCommand env st (content action) (abortSignal action) of
        (Inl e, st') \<Rightarrow> (Inl e, st')
      | (Inr resp, st') \<Rightarrow>
          if exitCode_nonzero resp
          then (Inl (ActionCommandError ''Failed To Execute Shell Command''
                       (output_or resp ''No Output Available'')), st')
          else (Inr (), st')))))"

text \<open>
  The regular expression \<^verbatim>\<open>/\bconvex\b/\<close>. A word character is a letter, a digit or
  the underscore. The expression matches where \<^verbatim>\<open>convex\<close> occurs with a word boundary on
  each side: as the word begins and ends with a word character, the unit before it and
  the unit after it, where there is one, are not word characters.
\<close>

definition word_char :: "char \<Rightarrow> bool" where
  "word_char c =
     (c \<in> set ''abcdefghijklmnopqrstuvwxyzABCDEFGHIJKLMNOPQRSTUVWXYZ0123456789_'')"

fun match_convex_after :: "char option \<Rightarrow> string \<Rightarrow> bool" where
  "match_convex_after prev [] = False"
| "match_convex_after prev (c # cs) =
     ((startsWith (c # cs) ''convex''
         \<and> (case prev of None \<Rightarrow> True | Some b \<Rightarrow> \<not> word_char b)
         \<and> (case drop (length ''convex'') (c # cs) of [] \<Rightarrow> True | a # _ \<Rightarrow> \<not> word_char a))
      \<or> match_convex_after (Some c) cs)"

definition match_convex :: "string \<Rightarrow> bool" where
  "match_convex s = match_convex_after None s"

definition normalizedCommand :: "string \<Rightarrow> string" where
  "normalizedCommand c =
     (if startsWith c ''npm install'' then slice c (length ''npm install'')
      else if startsWith c ''npm i'' then slice c (length ''npm i'')
      else c)"

text \<open>
  In the two npm strategies the first use of the content is a method call on it
  (\<^verbatim>\<open>action.content.startsWith\<close>), which throws when the content is missing.
\<close>

definition runNpmInstallAction ::
  "env \<Rightarrow> ActionRunner \<Rightarrow> ActionState \<Rightarrow> (error + unit) \<times> ActionRunner" where
  "runNpmInstallAction env st action =
     (case (if atype action \<noteq> Some NpmInstall then unreachable env ''Expected npmInstall action''
            else None) of
        Some e \<Rightarrow> (Inl e, st)
      | None \<Rightarrow>
     (case content action of
        None \<Rightarrow> (Inl read_of_undefined, st)
      | Some c \<Rightarrow>
          if match_convex (normalizedCommand c)
          then (Inr (), st\<lparr>log := log st @ [Notice ''Convex is already installed'']\<rparr>)
          else runShellAction env st
                 (action\<lparr>atype := Some Shell,
                         content := Some (''npm install '' @ normalizedCommand c)\<rparr>)))"

definition runNpmExecAction ::
  "env \<Rightarrow> ActionRunner \<Rightarrow> ActionState \<Rightarrow> (error + unit) \<times> ActionRunner" where
  "runNpmExecAction env st action =
     (case (if atype action \<noteq> Some NpmExec then unreachable env ''Expected npmExec action''
            else None) of
        Some e \<Rightarrow> (Inl e, st)
      | None \<Rightarrow>
     (case content action of
        None \<Rightarrow> (Inl read_of_undefined, st)
      | Some c \<Rightarrow>
          if \<not> startsWith c ''npm run '' \<and> \<not> startsWith c ''npx ''
          then (Inr (), st\<lparr>log := log st @ [Notice (''Invalid npmExec action: '' @ c)]\<rparr>)
          else if match_convex c
          then (Inr (), st\<lparr>log := log st @ [Notice ''Convex should be run as a tool call'']\<rparr>)
          else if c = ''npm run dev''
          then (Inr (), st\<lparr>log := log st @ [Notice ''Dev server should be run as a tool call'']\<rparr>)
          else runShellAction env st (action\<lparr>atype := Some Shell, content := Some c\<rparr>)))"

definition runStartAction ::
  "env \<Rightarrow> ActionRunner \<Rightarrow> ActionState \<Rightarrow> (error + (int \<times> string) option) \<times> ActionRunner" where
  "runStartAction env st action =
     (case (if atype action \<noteq> Some Start then unreachable env ''Expected shell action'' else None) of
        Some e \<Rightarrow> (Inl e, st)
      | None \<Rightarrow>
     (case shellReady env of
        Some e \<Rightarrow> (Inl e, st)
      | None \<Rightarrow>
     (case (if \<not> shellAttached env then unreachable env ''Shell terminal not found'' else None) of
        Some e \<Rightarrow> (Inl e, st)
      | None \<Rightarrow>
     (case shell_executeCommand env st (content action) (abortSignal action) of
        (Inl e, st') \<Rightarrow> (Inl e, st')
      | (Inr resp, st') \<Rightarrow>
          if exitCode_nonzero resp
          then (Inl (ActionCommandError ''Failed To Start Application''
                       (output_or resp ''No Output Available'')), st')
          else (Inr resp, st')))))"

text \<open>\<^verbatim>\<open>folder.replace(/\/+$/g, '')\<close>: the trailing slashes removed.\<close>

definition strip_trailing_slashes :: "string \<Rightarrow> string" where
  "strip_trailing_slashes folder = rev (dropWhile (\<lambda>c. c = CHR ''/'') (rev folder))"

definition runFileAction :: "env \<Rightarrow> ActionRunner \<Rightarrow> ActionState \<Rightarrow> (error + unit) \<times> ActionRunner" where
  "runFileAction env st action =
     (case (if atype action \<noteq> Some File then unreachable env ''Expected file action'' else None) of
        Some e \<Rightarrow> (Inl e, st)
      | None \<Rightarrow>
     (case webcontainer env of
        Inl e \<Rightarrow> (Inl e, st)
      | Inr workdir \<Rightarrow>
     (case relative env workdir (filePath action) of
        Inl e \<Rightarrow> (Inl e, st)
      | Inr relativePath \<Rightarrow>
          let folder = strip_trailing_slashes (dirname env relativePath);
              st1 = (if folder \<noteq> ''.''
                     then (case mkdir env folder of
                             None \<Rightarrow> st
                           | Some e \<Rightarrow> st\<lparr>log := log st @ [FileStepFailed ''Failed to create folder'' e]\<rparr>)
                     else st);
              st2 = (case writeFile env relativePath (content action) of
                       None \<Rightarrow> st1\<lparr>fileWrites := fileWrites st1 @ [(relativePath, content action)]\<rparr>
                     | Some e \<Rightarrow> st1\<lparr>log := log st1 @ [FileStepFailed ''Failed to write file'' e]\<rparr>)
          in (Inr (), st2))))"

definition runBuildAction ::
  "env \<Rightarrow> ActionRunner \<Rightarrow> ActionState \<Rightarrow> (error + (string \<times> int \<times> string)) \<times> ActionRunner" where
  "runBuildAction env st action =
     (case (if atype action \<noteq> Some Build then unreachable env ''Expected build action'' else None) of
        Some e \<Rightarrow> (Inl e, st)
      | None \<Rightarrow>
     (case webcontainer env of
        Inl e \<Rightarrow> (Inl e, st)
      | Inr workdir \<Rightarrow>
     (case spawnBuild env of
        Inl e \<Rightarrow> (Inl e, st)
      | Inr (exitCode, out) \<Rightarrow>
          if exitCode \<noteq> 0
          then (Inl (ActionCommandError ''Build Failed''
                       (if out = [] then ''No Output Available'' else out)), st)
          else (Inr (joinPath env workdir ''dist'', exitCode, out), st))))"

subsection \<open>The tool-call bridge\<close>

text \<open>
  \<^verbatim>\<open>resolvers.resolve(v)\<close> on the future of a tool call: a future settles once, so
  resolving a settled future changes nothing.
\<close>

definition resolve :: "ActionRunner \<Rightarrow> string \<Rightarrow> string \<Rightarrow> ActionRunner" where
  "resolve st callId v =
     st\<lparr>toolCalls := (toolCalls st)(callId \<mapsto>
           (case toolCalls st callId of Some (Some v0) \<Rightarrow> Some v0 | _ \<Rightarrow> Some v))\<rparr>"

text \<open>
  \<^verbatim>\<open>this.toolCalls.get(id)\<close>, with a pending future made and stored when there is none.
\<close>

definition ensure_resolvers :: "ActionRunner \<Rightarrow> string \<Rightarrow> ActionRunner" where
  "ensure_resolvers st callId =
     (case toolCalls st callId of
        None \<Rightarrow> st\<lparr>toolCalls := (toolCalls st)(callId \<mapsto> None)\<rparr>
      | Some resolvers \<Rightarrow> st)"

text \<open>\<^verbatim>\<open>${resp?.exitCode}\<close> and \<^verbatim>\<open>${resp?.output}\<close> in a template literal.\<close>

definition exitCode_text :: "env \<Rightarrow> (int \<times> string) option \<Rightarrow> string" where
  "exitCode_text env resp =
     (case resp of None \<Rightarrow> ''undefined'' | Some (exitCode, out) \<Rightarrow> numberToString env exitCode)"

definition output_text :: "(int \<times> string) option \<Rightarrow> string" where
  "output_text resp = (case resp of None \<Rightarrow> ''undefined'' | Some (exitCode, out) \<Rightarrow> out)"

definition runShellCommand ::
  "env \<Rightarrow> ActionRunner \<Rightarrow> string \<Rightarrow> string option \<Rightarrow> (error + string) \<times> ActionRunner" where
  "runShellCommand env st command abortKey =
     (case shellReady env of
        Some e \<Rightarrow> (Inl e, st)
      | None \<Rightarrow>
     (case shell_executeCommand env st (Some command) abortKey of
        (Inl e, st') \<Rightarrow> (Inl e, st')
      | (Inr resp, st') \<Rightarrow>
          if exitCode_nonzero resp
          then (Inl (Error (''Process exited with code '' @ exitCode_text env resp @ '': ''
                            @ cleanConvexOutput command (output_or resp []))), st')
          else (Inr (output_or resp []), st')))"

text \<open>The \<^verbatim>\<open>switch (parsed.toolName)\<close> inside the \<^verbatim>\<open>try\<close> of \<^verbatim>\<open>#runToolUseAction\<close>.\<close>

definition toolDispatch ::
  "env \<Rightarrow> ActionRunner \<Rightarrow> ActionState \<Rightarrow> ToolInvocation \<Rightarrow> (error + string) \<times> ActionRunner" where
  "toolDispatch env st action parsed =
     (if toolName parsed = ''str_replace_editor'' then
        (case parseEditorArgs env (args parsed) of
           Inl e \<Rightarrow> (Inl e, st)
         | Inr a \<Rightarrow>
        (case webcontainer env of
           Inl e \<Rightarrow> (Inl e, st)
         | Inr container \<Rightarrow> (editor env a, st)))
      else if toolName parsed = ''bash'' then
        (case parseBashArgs env (args parsed) of
           Inl e \<Rightarrow> (Inl e, st)
         | Inr command \<Rightarrow>
             if command = [] then (Inl (Error ''A nonempty command is required''), st)
             else
        (case shellReady env of
           Some e \<Rightarrow> (Inl e, st)
         | None \<Rightarrow>
        (case shell_executeCommand env st (Some command) (abortSignal action) of
           (Inl e, st') \<Rightarrow> (Inl e, st')
         | (Inr resp, st') \<Rightarrow>
             if exitCode_nonzero resp
             then (Inl (Error (''Process exited with code '' @ exitCode_text env resp @ '': ''
                               @ output_text resp)), st')
             else (Inr (output_or resp []), st'))))
      else if toolName parsed = ''deploy'' then
        runShellCommand env st ''npx convex dev --once'' (abortSignal action)
      else (Inl (Error (''Unknown tool: '' @ toolName parsed)), st))"

text \<open>
  The message the \<^verbatim>\<open>catch\<close> of \<^verbatim>\<open>#runToolUseAction\<close> resolves the future with, for an
  exception whose \<^verbatim>\<open>toString()\<close> gives the text \<open>raw\<close>.
\<close>

definition tool_error_message :: "string \<Rightarrow> string" where
  "tool_error_message raw =
     (if \<not> startsWith raw ''Error:'' then ''Error: '' @ raw else raw)"

text \<open>
  \<^verbatim>\<open>#runToolUseAction\<close>. \<^verbatim>\<open>JSON.parse\<close> turns its argument into a string first, so a
  missing content is parsed as the text \<^verbatim>\<open>undefined\<close>. In the \<^verbatim>\<open>catch\<close>, the exception
  is logged and then \<^verbatim>\<open>e.toString()\<close> is called: where that call throws, the future is
  not resolved and it is the error of the call that leaves the method.
\<close>

definition runToolUseAction ::
  "env \<Rightarrow> ActionRunner \<Rightarrow> string \<Rightarrow> ActionState \<Rightarrow> (error + unit) \<times> ActionRunner" where
  "runToolUseAction env st actionId action =
     (case parseToolInvocation env
             (case content action of None \<Rightarrow> ''undefined'' | Some c \<Rightarrow> c) of
        Inl e \<Rightarrow> (Inl e, st)
      | Inr parsed \<Rightarrow>
          if state parsed = Result then (Inr (), st)
          else if state parsed = PartialCall
          then (Inl (Error ''Tool call is still in progress''), st)
          else
            let st1 = ensure_resolvers st (toolCallId parsed)
            in (case toolDispatch env st1 action parsed of
                  (Inr result, st2) \<Rightarrow> (Inr (), resolve st2 (toolCallId parsed) result)
                | (Inl e, st2) \<Rightarrow>
                    let st3 = st2\<lparr>log := log st2 @ [ToolCallError e]\<rparr>
                    in (case toString e of
                          Inl t \<Rightarrow> (Inl t, st3)
                        | Inr raw \<Rightarrow>
                            (Inl e, resolve st3 (toolCallId parsed) (tool_error_message raw)))))"

subsection \<open>The dispatcher\<close>

text \<open>
  The \<^verbatim>\<open>switch (action.type)\<close> of \<^verbatim>\<open>#executeAction\<close>, for every type but \<^verbatim>\<open>start\<close>; for
  an action without a type no case applies.
\<close>

definition run_strategy ::
  "env \<Rightarrow> ActionRunner \<Rightarrow> string \<Rightarrow> ActionState \<Rightarrow> (error + unit) \<times> ActionRunner" where
  "run_strategy env st actionId action =
     (case atype action of
        None \<Rightarrow> (Inr (), st)
      | Some Shell \<Rightarrow>
          runShellAction env
            (st\<lparr>log := log st @
                  [Notice ''Convex action is not supported anymore. Use tool calls instead.'']\<rparr>)
            action
      | Some NpmInstall \<Rightarrow> runNpmInstallAction env st action
      | Some NpmExec \<Rightarrow> runNpmExecAction env st action
      | Some File \<Rightarrow> runFileAction env st action
      | Some Build \<Rightarrow>
          (case runBuildAction env st action of
             (Inl e, st') \<Rightarrow> (Inl e, st')
           | (Inr b, st') \<Rightarrow> (Inr (), st'\<lparr>buildOutput := Some b\<rparr>))
      | Some Start \<Rightarrow> (Inr (), st)
      | Some Convex \<Rightarrow>
          (Inr (), st\<lparr>log := log st @
                  [Notice ''Convex action is not supported anymore. Use tool calls instead.'']\<rparr>)
      | Some ToolUse \<Rightarrow> runToolUseAction env st actionId action)"

text \<open>
  The \<^verbatim>\<open>catch\<close> block of \<^verbatim>\<open>#executeAction\<close>: \<open>Inr ()\<close> when it returns, \<open>Inl error\<close>
  when it throws. It throws the error again after an alert, and for an action without
  an \<^verbatim>\<open>abortSignal\<close> its first read throws.
\<close>

definition alert_of :: "error \<Rightarrow> ActionAlert" where
  "alert_of e = ActionAlert ''error'' ''Dev Server Failed'' (err_header e) (err_output e)"

definition call_onAlert :: "ActionRunner \<Rightarrow> ActionAlert \<Rightarrow> ActionRunner" where
  "call_onAlert st a = (if onAlert st then st\<lparr>alerts := alerts st @ [a]\<rparr> else st)"

definition executeAction_catch ::
  "ActionRunner \<Rightarrow> string \<Rightarrow> ActionState \<Rightarrow> error \<Rightarrow> (error + unit) \<times> ActionRunner" where
  "executeAction_catch st actionId action e =
     (case signal_aborted st action of
        None \<Rightarrow> (Inl read_of_undefined, st)
      | Some True \<Rightarrow> (Inr (), st)
      | Some False \<Rightarrow>
          let st1 = updateAction st actionId
                      (\<lambda>a. a\<lparr>status := Some Failed, error := Some ''Action failed''\<rparr>);
              st2 = st1\<lparr>log := log st1 @ [ActionFailed (atype action) e]\<rparr>
          in if \<not> instanceof_ActionCommandError e then (Inr (), st2)
             else (Inl e, call_onAlert st2 (alert_of e)))"

text \<open>
  The \<^verbatim>\<open>.catch\<close> handler installed on the promise of \<^verbatim>\<open>#runStartAction\<close>. Where the read of
  the signal throws, the handler ends there and nothing has changed.
\<close>

definition start_catch :: "ActionRunner \<Rightarrow> string \<Rightarrow> ActionState \<Rightarrow> error \<Rightarrow> ActionRunner" where
  "start_catch st actionId action err =
     (case signal_aborted st action of
        None \<Rightarrow> st
      | Some True \<Rightarrow> st
      | Some False \<Rightarrow>
          let st1 = updateAction st actionId
                      (\<lambda>a. a\<lparr>status := Some Failed, error := Some ''Action failed''\<rparr>);
              st2 = st1\<lparr>log := log st1 @ [ActionFailed (atype action) err]\<rparr>
          in if \<not> instanceof_ActionCommandError err then st2
             else call_onAlert st2 (alert_of err))"

text \<open>
  A launched start action comes to its end: \<^verbatim>\<open>#runStartAction\<close> with the \<^verbatim>\<open>.then\<close> and
  \<^verbatim>\<open>.catch\<close> handlers of the dispatcher. It runs out of band, at any time after the
  launch; the dispatcher does not wait for it.
\<close>

definition start_settles :: "env \<Rightarrow> ActionRunner \<Rightarrow> string \<Rightarrow> ActionState \<Rightarrow> ActionRunner" where
  "start_settles env st actionId action =
     (case runStartAction env st action of
        (Inr resp, st') \<Rightarrow> updateAction st' actionId (\<lambda>a. a\<lparr>status := Some Complete\<rparr>)
      | (Inl err, st') \<Rightarrow> start_catch st' actionId action err)"

text \<open>
  \<^verbatim>\<open>#executeAction\<close>. The status is set to \<^verbatim>\<open>running\<close> before anything is read from the
  action. Where the lookup gave \<^verbatim>\<open>undefined\<close>, the read of the type throws inside the
  \<^verbatim>\<open>try\<close> and the read of the signal throws inside the \<^verbatim>\<open>catch\<close>. A start action is
  launched and the dispatcher returns after its fixed delay, leaving the status at
  \<^verbatim>\<open>running\<close>. After a strategy that returned, the signal is read unless the call is a
  streaming one; where that read throws, the \<^verbatim>\<open>catch\<close> block runs with its error.
\<close>

definition executeAction ::
  "env \<Rightarrow> ActionRunner \<Rightarrow> string \<Rightarrow> bool \<Rightarrow> (error + unit) \<times> ActionRunner" where
  "executeAction env st actionId isStreaming =
     (let found = actions_get st actionId;
          st0 = updateAction st actionId (\<lambda>a. a\<lparr>status := Some Running\<rparr>)
      in case found of
           None \<Rightarrow> (Inl read_of_undefined, st0)
         | Some action \<Rightarrow>
             if atype action = Some Start
             then (Inr (), st0\<lparr>launched := launched st0 @ [(actionId, action)]\<rparr>)
             else
               (case run_strategy env st0 actionId action of
                  (Inr u, st1) \<Rightarrow>
                    if isStreaming
                    then (Inr (), updateAction st1 actionId (\<lambda>a. a\<lparr>status := Some Running\<rparr>))
                    else
                      (case signal_aborted st1 action of
                         None \<Rightarrow> executeAction_catch st1 actionId action read_of_undefined
                       | Some aborted \<Rightarrow>
                           (Inr (),
                            updateAction st1 actionId
                              (\<lambda>a. a\<lparr>status := Some (if aborted then Aborted else Complete)\<rparr>)))
                | (Inl e, st1) \<Rightarrow> executeAction_catch st1 actionId action e))"

subsection \<open>The execution chain\<close>

text \<open>
  One reaction of the chain runs. The unit of work is
  \<^verbatim>\<open>.then(() => this.#executeAction(actionId, isStreaming)).catch((error) => console.error(...))\<close>:
  a rejection is logged and the chain's promise is fulfilled all the same.
\<close>

fun run_work :: "env \<Rightarrow> ActionRunner \<Rightarrow> work \<Rightarrow> ActionRunner" where
  "run_work env st (MarkRunning actionId) =
     updateAction st actionId (\<lambda>a. a\<lparr>status := Some Running\<rparr>)"
| "run_work env st (Execute actionId isStreaming) =
     (case executeAction env st actionId isStreaming of
        (Inr u, st') \<Rightarrow> st'
      | (Inl e, st') \<Rightarrow> st'\<lparr>log := log st' @ [ChainCaught e]\<rparr>)"

text \<open>\<^verbatim>\<open>await this.#currentExecutionPromise\<close>: the waiting reactions run, in their order.\<close>

definition await_chain :: "env \<Rightarrow> ActionRunner \<Rightarrow> ActionRunner" where
  "await_chain env st =
     foldl (run_work env) (st\<lparr>currentExecutionPromise := []\<rparr>) (currentExecutionPromise st)"

text \<open>
  \<^verbatim>\<open>runAction\<close> up to the point where it awaits the chain. The result says whether the call
  has thrown (\<open>Inl\<close>), has returned early (\<open>Inr False\<close>) or goes on to await the chain
  (\<open>Inr True\<close>). The guard \<^verbatim>\<open>if (!action)\<close> tests what the lookup gave: \<^verbatim>\<open>undefined\<close>
  is the one falsy value it can give. When nothing was found and \<^verbatim>\<open>unreachable\<close>
  returns, the read of \<^verbatim>\<open>action.executed\<close> throws. \<^verbatim>\<open>action.executed\<close> is truthy only
  when it is \<^verbatim>\<open>true\<close>.
\<close>

definition runAction_enqueue ::
  "env \<Rightarrow> ActionRunner \<Rightarrow> string \<Rightarrow> BoltAction \<Rightarrow> bool \<Rightarrow> (error + bool) \<times> ActionRunner" where
  "runAction_enqueue env st actionId d isStreaming =
     (case actions_get st actionId of
        None \<Rightarrow>
          (case unreachable env (''Action '' @ actionId @ '' not found'') of
             Some e \<Rightarrow> (Inl e, st)
           | None \<Rightarrow> (Inl read_of_undefined, st))
      | Some action \<Rightarrow>
          if executed action = Some True then (Inr False, st)
          else if isStreaming \<and> atype action \<noteq> Some File then (Inr False, st)
          else
            let st1 = updateAction st actionId
                        (\<lambda>a. (spread action d)\<lparr>executed := Some (\<not> isStreaming)\<rparr>)
            in (Inr True,
                st1\<lparr>currentExecutionPromise :=
                      currentExecutionPromise st1 @ [Execute actionId isStreaming]\<rparr>))"

text \<open>The whole of \<^verbatim>\<open>runAction\<close>: the promise it returns and the state when that settles.\<close>

definition runAction ::
  "env \<Rightarrow> ActionRunner \<Rightarrow> string \<Rightarrow> BoltAction \<Rightarrow> bool \<Rightarrow> (error + unit) \<times> ActionRunner" where
  "runAction env st actionId d isStreaming =
     (case runAction_enqueue env st actionId d isStreaming of
        (Inl e, st') \<Rightarrow> (Inl e, st')
      | (Inr False, st') \<Rightarrow> (Inr (), st')
      | (Inr True, st') \<Rightarrow> (Inr (), await_chain env st'))"

subsection \<open>Whole words\<close>

text \<open>
  What it means for a text to contain \<^verbatim>\<open>convex\<close> as a whole word, said without the
  scan: the text splits into a part before the word and a part after it, the first not
  ending in a word character and the second not beginning with one.
\<close>

definition boundary_before :: "char option \<Rightarrow> string \<Rightarrow> bool" where
  "boundary_before prev pre =
     (case (if pre = [] then prev else Some (last pre)) of
        None \<Rightarrow> True
      | Some b \<Rightarrow> \<not> word_char b)"

definition boundary_after :: "string \<Rightarrow> bool" where
  "boundary_after post = (case post of [] \<Rightarrow> True | a # _ \<Rightarrow> \<not> word_char a)"

definition whole_word_convex :: "string \<Rightarrow> bool" where
  "whole_word_convex s =
     (\<exists>pre post. s = pre @ ''convex'' @ post
        \<and> (pre = [] \<or> \<not> word_char (last pre)) \<and> (post = [] \<or> \<not> word_char (hd post)))"

subsection \<open>A runner and an environment for concrete runs\<close>

text \<open>The runner as its constructor leaves it.\<close>

definition new_ActionRunner :: "(string \<rightharpoonup> string option) \<Rightarrow> bool \<Rightarrow> ActionRunner" where
  "new_ActionRunner calls alert =
     \<lparr>actions = Map.empty, abortControllers = (\<lambda>k. False), currentExecutionPromise = [],
      onAlert = alert, alerts = [], buildOutput = None, toolCalls = calls, launched = [],
      shellCommands = [], fileWrites = [], log = []\<rparr>"

text \<open>
  An environment for the concrete runs below: the shell answers every command with the given
  call, the build exits with code 1, \<^verbatim>\<open>unreachable\<close> throws, and an action's content
  parses to a tool call \<^verbatim>\<open>call-1\<close> of the tool the content names, with argument \<^verbatim>\<open>ls\<close>.
\<close>

definition sample_env :: "ShellCall \<Rightarrow> env" where
  "sample_env call =
     \<lparr>unreachable = (\<lambda>m. Some (Error (''Unreachable: '' @ m))),
      shellReady = None,
      shellAttached = True,
      executeCommand = (\<lambda>n c. call),
      webcontainer = Inr ''/home/project'',
      relative = (\<lambda>w p. case p of None \<Rightarrow> Inl (TypeError ''Path must be a string'') | Some f \<Rightarrow> Inr f),
      dirname = (\<lambda>p. ''.''),
      joinPath = (\<lambda>a b. a @ ''/'' @ b),
      mkdir = (\<lambda>p. None),
      writeFile = (\<lambda>p c. None),
      spawnBuild = Inr (1, ''error TS2304''),
      parseToolInvocation =
        (\<lambda>c. Inr \<lparr>state = Call, toolCallId = ''call-1'', toolName = c, args = ''ls''\<rparr>),
      parseEditorArgs = Inr,
      parseBashArgs = Inr,
      editor = (\<lambda>a. Inr ''done''),
      numberToString = (\<lambda>n. ''1'')\<rparr>"

text \<open>
  Shell calls that exit with a code and an output, the second after invoking the abort
  hook; should the hook throw, its error is the call's rejection.
\<close>

definition exits :: "int \<Rightarrow> string \<Rightarrow> ShellCall" where
  "exits code out = \<lparr>abortFired = False, response = Inr (Some (code, out)), hookThrows = Inl\<rparr>"

definition aborts_and_exits :: "int \<Rightarrow> string \<Rightarrow> ShellCall" where
  "aborts_and_exits code out =
     \<lparr>abortFired = True, response = Inr (Some (code, out)), hookThrows = Inl\<rparr>"

definition an_action :: "ActionType \<Rightarrow> string \<Rightarrow> BoltAction" where
  "an_action t c = \<lparr>atype = Some t, content = Some c, filePath = None\<rparr>"

text \<open>The same with a shell that fails the command \<^verbatim>\<open>false\<close> and no other.\<close>

definition picky_env :: env where
  "picky_env =
     (sample_env (exits 0 ''ok''))
       \<lparr>executeCommand :=
          (\<lambda>n c. if c = Some ''false'' then exits 1 ''boom'' else exits 0 ''ok'')\<rparr>"

definition two_registered :: ActionRunner where
  "two_registered =
     addAction (addAction (new_ActionRunner Map.empty True) ''a'' (an_action Shell ''false''))
       ''b'' (an_action Shell ''ls'')"

subsection \<open>Facts about the string operations\<close>

lemma startsWith_prefix: "startsWith s p \<longleftrightarrow> prefix p s"
  unfolding startsWith_def prefix_def
  by (metis append_eq_conv_conj append_take_drop_id)

lemma includes_sublist: "js_includes s p \<longleftrightarrow> sublist p s"
  by (induction s) (simp_all add: sublist_Cons_right startsWith_prefix)

lemma js_replace_absent:
  "pat \<noteq> [] \<Longrightarrow> hd pat \<notin> set s \<Longrightarrow> js_replace s pat rep = s"
proof (induction s)
  case Nil
  then show ?case by simp
next
  case (Cons x xs)
  from Cons.prems have "\<not> startsWith (x # xs) pat"
    by (cases pat) (auto simp: startsWith_def)
  with Cons show ?case by simp
qed

lemma js_split_nonempty: "js_split s c \<noteq> []"
  by (induction s) (auto split: list.splits)

lemma banned_code:
  "list_ex (\<lambda>bannedLine. js_includes line bannedLine) BANNED_LINES \<longleftrightarrow> banned line"
  by (simp add: banned_def list_ex_iff includes_sublist)

lemma js_split_lines_free: "l \<in> set (js_split s c) \<Longrightarrow> c \<notin> set l"
proof (induction s arbitrary: l)
  case Nil
  then show ?case by simp
next
  case (Cons x xs)
  show ?case
  proof (cases "x = c")
    case True
    with Cons show ?thesis by auto
  next
    case False
    obtain k ks where s: "js_split xs c = k # ks"
      using js_split_nonempty [of xs c] by (cases "js_split xs c") auto
    with Cons.prems False have "l = x # k \<or> l \<in> set ks" by auto
    with Cons.IH s False show ?thesis by auto
  qed
qed

lemma js_split_append:
  "c \<notin> set l \<Longrightarrow> js_split (l @ c # rest) c = l # js_split rest c"
  by (induction l) (auto split: list.splits)

lemma js_split_single: "c \<notin> set l \<Longrightarrow> js_split l c = [l]"
  by (induction l) (auto split: list.splits)

lemma js_split_join:
  "ls \<noteq> [] \<Longrightarrow> \<forall>l \<in> set ls. c \<notin> set l \<Longrightarrow> js_split (js_join ls [c]) c = ls"
proof (induction ls "[c]" rule: js_join.induct)
  case 1
  then show ?case by simp
next
  case (2 l)
  then show ?case by (simp add: js_split_single)
next
  case (3 l v va)
  then show ?case by (simp add: js_split_append)
qed

lemma lines_of_cleaned:
  assumes "CR \<notin> set out" "filter (\<lambda>line. \<not> banned line) (js_split out LF) \<noteq> []"
  shows "js_split (cleanConvexOutput ''npm run lint'' out) LF
           = filter (\<lambda>line. \<not> banned line) (js_split out LF)"
proof -
  have "\<forall>l \<in> set (filter (\<lambda>line. \<not> banned line) (js_split out LF)). LF \<notin> set l"
    by (auto dest: js_split_lines_free)
  with assms(2) have "js_split (js_join (filter (\<lambda>line. \<not> banned line) (js_split out LF)) [LF]) LF
      = filter (\<lambda>line. \<not> banned line) (js_split out LF)"
    by (rule js_split_join)
  with assms(1) show ?thesis
    by (simp add: cleanConvexOutput_def js_replace_absent banned_code)
qed

subsection \<open>Facts about the runner\<close>

lemma actions_get_own: "actions st i = Some a \<Longrightarrow> actions_get st i = Some a"
  by (simp add: actions_get_def)

lemma updateAction_other:
  "alerts (updateAction st i f) = alerts st"
  "log (updateAction st i f) = log st"
  "onAlert (updateAction st i f) = onAlert st"
  "abortControllers (updateAction st i f) = abortControllers st"
  "toolCalls (updateAction st i f) = toolCalls st"
  "shellCommands (updateAction st i f) = shellCommands st"
  "currentExecutionPromise (updateAction st i f) = currentExecutionPromise st"
  by (simp_all add: updateAction_def)

lemma updateAction_actions:
  "actions (updateAction st i f) k =
     (if k = i then Some (f (case actions_get st i of None \<Rightarrow> no_fields | Some a \<Rightarrow> a))
      else actions st k)"
  by (simp add: updateAction_def)

lemma updateAction_own:
  "actions st i = Some a \<Longrightarrow> actions (updateAction st i f) i = Some (f a)"
  by (simp add: updateAction_actions actions_get_own)

lemma updateAction_stays: "actions st k \<noteq> None \<Longrightarrow> actions (updateAction st i f) k \<noteq> None"
  by (simp add: updateAction_actions)

lemma signal_aborted_updateAction:
  "signal_aborted (updateAction st i f) action = signal_aborted st action"
  by (simp add: signal_aborted_def updateAction_other)

lemma call_onAlert_other:
  "log (call_onAlert st a) = log st"
  "actions (call_onAlert st a) = actions st"
  "alerts (call_onAlert st a) = (if onAlert st then alerts st @ [a] else alerts st)"
  by (simp_all add: call_onAlert_def)

lemma tool_error_message_prefix: "startsWith (tool_error_message raw) ''Error:''"
  by (simp add: tool_error_message_def startsWith_def)

lemma shell_executeCommand_keeps:
  "shell_executeCommand env st c k = (r, st') \<Longrightarrow>
   toolCalls st' = toolCalls st
   \<and> (actions st i \<noteq> None \<longrightarrow> actions st' i \<noteq> None)
   \<and> currentExecutionPromise st' = currentExecutionPromise st"
  by (auto simp: shell_executeCommand_def Let_def abort_def updateAction_other updateAction_actions
        split: if_splits option.splits)

lemma runShellCommand_keeps:
  "runShellCommand env st c k = (r, st') \<Longrightarrow>
   toolCalls st' = toolCalls st
   \<and> (actions st i \<noteq> None \<longrightarrow> actions st' i \<noteq> None)
   \<and> currentExecutionPromise st' = currentExecutionPromise st"
  by (auto simp: runShellCommand_def split: option.splits prod.splits sum.splits if_splits
        dest: shell_executeCommand_keeps [where i = i])

lemma toolDispatch_keeps:
  "toolDispatch env st action parsed = (r, st') \<Longrightarrow>
   toolCalls st' = toolCalls st
   \<and> (actions st i \<noteq> None \<longrightarrow> actions st' i \<noteq> None)
   \<and> currentExecutionPromise st' = currentExecutionPromise st"
  by (auto simp: toolDispatch_def split: option.splits prod.splits sum.splits if_splits
        dest: shell_executeCommand_keeps [where i = i] runShellCommand_keeps [where i = i])

lemma resolve_keeps:
  "actions (resolve st c v) = actions st"
  "currentExecutionPromise (resolve st c v) = currentExecutionPromise st"
  "abortControllers (resolve st c v) = abortControllers st"
  "toolCalls (resolve st c v) c = Some (case toolCalls st c of Some (Some v0) \<Rightarrow> Some v0 | _ \<Rightarrow> Some v)"
  by (simp_all add: resolve_def)

lemma ensure_resolvers_keeps:
  "actions (ensure_resolvers st c) = actions st"
  "currentExecutionPromise (ensure_resolvers st c) = currentExecutionPromise st"
  "toolCalls (ensure_resolvers st c) c = Some (case toolCalls st c of None \<Rightarrow> None | Some r \<Rightarrow> r)"
  by (simp_all add: ensure_resolvers_def split: option.splits)

lemma runToolUseAction_raises:
  assumes "parseToolInvocation env (case content action of None \<Rightarrow> ''undefined'' | Some c \<Rightarrow> c)
             = Inr parsed"
    and "state parsed = Call"
    and "toolDispatch env (ensure_resolvers st (toolCallId parsed)) action parsed = (Inl e, st2)"
  shows "runToolUseAction env st actionId action =
           (case toString e of
              Inl t \<Rightarrow> (Inl t, st2\<lparr>log := log st2 @ [ToolCallError e]\<rparr>)
            | Inr raw \<Rightarrow>
                (Inl e, resolve (st2\<lparr>log := log st2 @ [ToolCallError e]\<rparr>) (toolCallId parsed)
                          (tool_error_message raw)))"
  using assms by (simp add: runToolUseAction_def Let_def)

lemma runToolUseAction_keeps:
  "(actions st i \<noteq> None \<longrightarrow> actions (snd (runToolUseAction env st actionId action)) i \<noteq> None)
   \<and> currentExecutionPromise (snd (runToolUseAction env st actionId action))
       = currentExecutionPromise st"
proof (cases "parseToolInvocation env (case content action of None \<Rightarrow> ''undefined'' | Some c \<Rightarrow> c)")
  case (Inl e)
  then show ?thesis by (simp add: runToolUseAction_def)
next
  case (Inr parsed)
  obtain r st2 where d: "toolDispatch env (ensure_resolvers st (toolCallId parsed)) action parsed = (r, st2)"
    by (cases "toolDispatch env (ensure_resolvers st (toolCallId parsed)) action parsed")
  from toolDispatch_keeps [OF d, of i]
  have k: "actions st i \<noteq> None \<longrightarrow> actions st2 i \<noteq> None"
    "currentExecutionPromise st2 = currentExecutionPromise st"
    by (simp_all add: ensure_resolvers_keeps)
  show ?thesis
    using Inr d k
    by (cases r; cases "toString (projl r)")
       (simp_all add: runToolUseAction_def Let_def resolve_keeps)
qed

lemma abort_chain: "currentExecutionPromise (abort st k) = currentExecutionPromise st"
  by (simp add: abort_def updateAction_other)

lemma runShellAction_chain:
  "currentExecutionPromise (snd (runShellAction env st action)) = currentExecutionPromise st"
  by (auto simp: runShellAction_def split: option.splits prod.splits sum.splits if_splits
        dest: shell_executeCommand_keeps)

lemma runFileAction_chain:
  "currentExecutionPromise (snd (runFileAction env st action)) = currentExecutionPromise st"
  by (auto simp: runFileAction_def Let_def split: option.splits sum.splits)

lemma runBuildAction_chain:
  "currentExecutionPromise (snd (runBuildAction env st action)) = currentExecutionPromise st"
  by (auto simp: runBuildAction_def split: option.splits sum.splits prod.splits)

lemma run_strategy_chain:
  "currentExecutionPromise (snd (run_strategy env st actionId action)) = currentExecutionPromise st"
proof (cases "atype action")
  case None
  then show ?thesis by (simp add: run_strategy_def)
next
  case (Some t)
  show ?thesis
  proof (cases t)
    case Shell
    with Some show ?thesis by (simp add: run_strategy_def runShellAction_chain)
  next
    case NpmInstall
    with Some show ?thesis
      by (simp add: run_strategy_def runNpmInstallAction_def runShellAction_chain
            split: option.splits)
  next
    case NpmExec
    with Some show ?thesis
      by (simp add: run_strategy_def runNpmExecAction_def runShellAction_chain
            split: option.splits)
  next
    case File
    with Some show ?thesis by (simp add: run_strategy_def runFileAction_chain)
  next
    case Build
    with Some show ?thesis
      using runBuildAction_chain [of env st action]
      by (auto simp: run_strategy_def split: prod.splits sum.splits)
  next
    case Start
    with Some show ?thesis by (simp add: run_strategy_def)
  next
    case Convex
    with Some show ?thesis by (simp add: run_strategy_def)
  next
    case ToolUse
    with Some show ?thesis by (simp add: run_strategy_def runToolUseAction_keeps)
  qed
qed

lemma executeAction_catch_chain:
  "currentExecutionPromise (snd (executeAction_catch st actionId action e)) = currentExecutionPromise st"
  by (simp add: executeAction_catch_def Let_def call_onAlert_def updateAction_other
        split: option.splits bool.splits)

lemma executeAction_chain:
  "currentExecutionPromise (snd (executeAction env st actionId isStreaming)) = currentExecutionPromise st"
proof (cases "actions_get st actionId")
  case None
  then show ?thesis by (simp add: executeAction_def Let_def updateAction_other)
next
  case (Some action)
  let ?st0 = "updateAction st actionId (\<lambda>a. a\<lparr>status := Some Running\<rparr>)"
  obtain r st1 where s: "run_strategy env ?st0 actionId action = (r, st1)"
    by (cases "run_strategy env ?st0 actionId action")
  from run_strategy_chain [of env ?st0 actionId action] s
  have c: "currentExecutionPromise st1 = currentExecutionPromise st"
    by (simp add: updateAction_other)
  show ?thesis
    using Some s c
    by (cases r)
       (simp_all add: executeAction_def Let_def updateAction_other executeAction_catch_chain
          split: option.splits)
qed

lemma run_work_chain:
  "currentExecutionPromise (run_work env st w) = currentExecutionPromise st"
proof (cases w)
  case (MarkRunning i)
  then show ?thesis by (simp add: updateAction_other)
next
  case (Execute i s)
  obtain r st' where e: "executeAction env st i s = (r, st')"
    by (cases "executeAction env st i s")
  from executeAction_chain [of env st i s] e
  have "currentExecutionPromise st' = currentExecutionPromise st" by simp
  with Execute e show ?thesis by (cases r) simp_all
qed

lemma foldl_run_work_chain:
  "currentExecutionPromise (foldl (run_work env) st ws) = currentExecutionPromise st"
  by (induction ws arbitrary: st) (simp_all add: run_work_chain)

lemma await_chain_idle: "currentExecutionPromise (await_chain env st) = []"
  by (simp add: await_chain_def foldl_run_work_chain)

lemma runAction_appends_and_runs:
  assumes "actions st actionId = Some a" "executed a \<noteq> Some True"
    "\<not> (isStreaming \<and> atype a \<noteq> Some File)"
  shows "currentExecutionPromise (snd (runAction env st actionId d isStreaming)) = []"
    and "\<exists>stA. runAction_enqueue env st actionId d isStreaming = (Inr True, stA)
             \<and> currentExecutionPromise stA = currentExecutionPromise st @ [Execute actionId isStreaming]
             \<and> runAction env st actionId d isStreaming =
                 (Inr (), run_work env
                   (foldl (run_work env) (stA\<lparr>currentExecutionPromise := []\<rparr>) (currentExecutionPromise st))
                   (Execute actionId isStreaming))"
proof -
  from assms obtain stA where q: "runAction_enqueue env st actionId d isStreaming = (Inr True, stA)"
    by (auto simp: runAction_enqueue_def Let_def actions_get_own)
  from assms q have c: "currentExecutionPromise stA = currentExecutionPromise st @ [Execute actionId isStreaming]"
    by (auto simp: runAction_enqueue_def Let_def updateAction_other actions_get_own)
  have r: "runAction env st actionId d isStreaming = (Inr (), await_chain env stA)"
    using q by (simp add: runAction_def)
  show "currentExecutionPromise (snd (runAction env st actionId d isStreaming)) = []"
    using r by (simp add: await_chain_idle)
  have "runAction env st actionId d isStreaming =
          (Inr (), run_work env
            (foldl (run_work env) (stA\<lparr>currentExecutionPromise := []\<rparr>) (currentExecutionPromise st))
            (Execute actionId isStreaming))"
    using r c by (simp add: await_chain_def)
  with q c show "\<exists>stA. runAction_enqueue env st actionId d isStreaming = (Inr True, stA)
             \<and> currentExecutionPromise stA = currentExecutionPromise st @ [Execute actionId isStreaming]
             \<and> runAction env st actionId d isStreaming =
                 (Inr (), run_work env
                   (foldl (run_work env) (stA\<lparr>currentExecutionPromise := []\<rparr>) (currentExecutionPromise st))
                   (Execute actionId isStreaming))"
    by blast
qed

lemma runShellAction_quiet_call:
  assumes "atype action = Some Shell" "shellReady env = None" "shellAttached env"
    and "abortFired (executeCommand env (length (shellCommands st)) (content action)) = False"
    and "response (executeCommand env (length (shellCommands st)) (content action)) = Inr (Some (code, out))"
  shows "runShellAction env st action =
           (if code \<noteq> 0
            then Inl (ActionCommandError ''Failed To Execute Shell Command''
                        (if out = [] then ''No Output Available'' else out))
            else Inr (),
            st\<lparr>shellCommands := shellCommands st @ [content action]\<rparr>)"
  using assms
  by (simp add: runShellAction_def shell_executeCommand_def Let_def exitCode_nonzero_def output_or_def)

lemmas run_defs = runAction_def runAction_enqueue_def await_chain_def executeAction_def
  run_strategy_def runShellAction_def shell_executeCommand_def executeAction_catch_def
  updateAction_def actions_get_def Object_prototype_def no_fields_def signal_aborted_def
  abort_def addAction_def new_ActionRunner_def sample_env_def exits_def
  aborts_and_exits_def registered_def an_action_def spread_def exitCode_nonzero_def output_or_def
  call_onAlert_def alert_of_def read_of_undefined_def Let_def

lemmas tool_defs = runToolUseAction_def toolDispatch_def ensure_resolvers_def resolve_def
  tool_error_message_def named_toString_def exitCode_text_def output_text_def startsWith_def

lemmas sample_defs = picky_env_def two_registered_def

lemma signal_aborted_fields:
  "signal_aborted (st\<lparr>log := l\<rparr>) a = signal_aborted st a"
  "signal_aborted (st\<lparr>shellCommands := c\<rparr>) a = signal_aborted st a"
  "signal_aborted (st\<lparr>alerts := al\<rparr>) a = signal_aborted st a"
  by (simp_all add: signal_aborted_def)

subsection \<open>Facts about the strategies\<close>

lemma startsWith_iff: "startsWith s p \<longleftrightarrow> (\<exists>r. s = p @ r)"
  unfolding startsWith_def by (metis append_eq_conv_conj append_take_drop_id)

lemma match_convex_after_iff:
  "match_convex_after prev s \<longleftrightarrow>
     (\<exists>pre post. s = pre @ ''convex'' @ post \<and> boundary_before prev pre \<and> boundary_after post)"
proof (induction s arbitrary: prev)
  case Nil
  then show ?case by simp
next
  case (Cons c cs)
  have here:
    "(startsWith (c # cs) ''convex'' \<and> boundary_before prev []
        \<and> boundary_after (drop (length ''convex'') (c # cs)))
     \<longleftrightarrow> (\<exists>post. c # cs = ''convex'' @ post \<and> boundary_before prev [] \<and> boundary_after post)"
    unfolding startsWith_iff by auto
  have later:
    "match_convex_after (Some c) cs \<longleftrightarrow>
       (\<exists>ps post. c # cs = (c # ps) @ ''convex'' @ post
          \<and> boundary_before prev (c # ps) \<and> boundary_after post)"
    unfolding Cons.IH by (auto simp: boundary_before_def)
  have parts:
    "(\<exists>pre post. c # cs = pre @ ''convex'' @ post \<and> boundary_before prev pre \<and> boundary_after post)
     \<longleftrightarrow> (\<exists>post. c # cs = ''convex'' @ post \<and> boundary_before prev [] \<and> boundary_after post)
       \<or> (\<exists>ps post. c # cs = (c # ps) @ ''convex'' @ post
            \<and> boundary_before prev (c # ps) \<and> boundary_after post)"
    (is "?L \<longleftrightarrow> ?A \<or> ?B")
  proof
    assume ?L
    then obtain pre post where
      h: "c # cs = pre @ ''convex'' @ post" "boundary_before prev pre" "boundary_after post"
      by blast
    show "?A \<or> ?B"
    proof (cases pre)
      case Nil
      with h show ?thesis by auto
    next
      case (Cons p ps)
      with h have "p = c" by simp
      with h Cons show ?thesis by blast
    qed
  next
    assume "?A \<or> ?B"
    then show ?L by (metis append_Nil)
  qed
  have "match_convex_after prev (c # cs) \<longleftrightarrow>
     (startsWith (c # cs) ''convex'' \<and> boundary_before prev []
        \<and> boundary_after (drop (length ''convex'') (c # cs)))
     \<or> match_convex_after (Some c) cs"
    by (simp add: boundary_before_def boundary_after_def)
  then show ?case using here later parts by simp
qed

lemma match_convex_whole_word: "match_convex s \<longleftrightarrow> whole_word_convex s"
proof -
  have a: "boundary_before None pre \<longleftrightarrow> (pre = [] \<or> \<not> word_char (last pre))" for pre
    by (simp add: boundary_before_def)
  have b: "boundary_after post \<longleftrightarrow> (post = [] \<or> \<not> word_char (hd post))" for post
    by (cases post) (simp_all add: boundary_after_def)
  show ?thesis
    unfolding match_convex_def whole_word_convex_def match_convex_after_iff a b ..
qed

lemma normalizedCommand_install: "normalizedCommand (''npm install'' @ r) = r"
  by (simp add: normalizedCommand_def startsWith_def slice_def)

lemma normalizedCommand_i:
  "\<not> startsWith (''npm i'' @ r) ''npm install'' \<Longrightarrow> normalizedCommand (''npm i'' @ r) = r"
  by (simp add: normalizedCommand_def slice_def startsWith_def)

lemma shell_executeCommand_commands:
  "shellCommands (snd (shell_executeCommand env st c k)) = shellCommands st @ [c]"
  by (simp add: shell_executeCommand_def Let_def abort_def updateAction_other split: option.splits)

lemma runShellAction_commands:
  "atype action = Some Shell \<Longrightarrow> shellReady env = None \<Longrightarrow> shellAttached env \<Longrightarrow>
   shellCommands (snd (runShellAction env st action)) = shellCommands st @ [content action]"
  using shell_executeCommand_commands [of env st "content action" "abortSignal action"]
  by (auto simp: runShellAction_def split: prod.splits sum.splits)

lemma catch_when_aborted:
  "signal_aborted st action = Some True \<Longrightarrow>
   executeAction_catch st actionId action e = (Inr (), st) \<and> start_catch st actionId action e = st"
  by (simp add: executeAction_catch_def start_catch_def)

lemma runAction_unknown_id_raises:
  "actions st actionId = None \<Longrightarrow> actionId \<notin> set Object_prototype \<Longrightarrow>
   (\<exists>e. runAction_enqueue env st actionId d isStreaming = (Inl e, st))
   \<and> (\<exists>e. runAction env st actionId d isStreaming = (Inl e, st))
   \<and> (\<forall>e. unreachable env (''Action '' @ actionId @ '' not found'') = Some e \<longrightarrow>
         runAction env st actionId d isStreaming = (Inl e, st))"
  by (auto simp: runAction_enqueue_def runAction_def actions_get_def split: option.splits)

section \<open>Theorems\<close>

text \<open>
  C1. When the cancellation token has fired, the dispatcher's catch path returns at
  once (\<open>catch_when_aborted\<close>): the status is not set to \<^verbatim>\<open>failed\<close> and no alert is
  raised. The status it leaves is the one the store holds at that moment, and that is
  \<^verbatim>\<open>aborted\<close> only if the token fired after the dispatcher set \<^verbatim>\<open>running\<close>. Here a shell
  action is registered, its abort capability is called, and then the action is committed
  against a shell that exits with code 1: the dispatcher overwrites \<^verbatim>\<open>aborted\<close> with
  \<^verbatim>\<open>running\<close>, the strategy throws, the catch path returns, and the action ends as
  \<^verbatim>\<open>running\<close>.
\<close>

theorem aborted_before_dispatch_ends_running:
  "abortControllers
     (abort (addAction (new_ActionRunner Map.empty True) ''a1'' (an_action Shell ''ls'')) ''a1'') ''a1''
   \<and> map_option status
        (actions (abort (addAction (new_ActionRunner Map.empty True) ''a1'' (an_action Shell ''ls''))
                    ''a1'') ''a1'') = Some (Some Aborted)
   \<and> fst (runAction (sample_env (exits 1 ''boom''))
        (abort (addAction (new_ActionRunner Map.empty True) ''a1'' (an_action Shell ''ls'')) ''a1'')
        ''a1'' (an_action Shell ''ls'') False) = Inr ()
   \<and> map_option status (actions (snd (runAction (sample_env (exits 1 ''boom''))
        (abort (addAction (new_ActionRunner Map.empty True) ''a1'' (an_action Shell ''ls'')) ''a1'')
        ''a1'' (an_action Shell ''ls'') False)) ''a1'') = Some (Some Running)
   \<and> alerts (snd (runAction (sample_env (exits 1 ''boom''))
        (abort (addAction (new_ActionRunner Map.empty True) ''a1'' (an_action Shell ''ls'')) ''a1'')
        ''a1'' (an_action Shell ''ls'') False)) = []
   \<and> shellCommands (snd (runAction (sample_env (exits 1 ''boom''))
        (abort (addAction (new_ActionRunner Map.empty True) ''a1'' (an_action Shell ''ls'')) ''a1'')
        ''a1'' (an_action Shell ''ls'') False)) = [Some ''ls'']"
  by (simp add: run_defs)

text \<open>
  C2. For a registered action, \<^verbatim>\<open>runAction\<close> changes nothing and appends nothing to the
  chain when the action is already executed, and also when it is called with
  \<open>isStreaming\<close> for an action that is not a file action. In every other case it stores
  the action with \<open>executed\<close> set to the negation of \<open>isStreaming\<close>, appends exactly
  one unit of work at the tail of the chain, and awaits the chain so extended.
\<close>

theorem runAction_commits_once:
  "actions st actionId = Some action \<longrightarrow>
     (executed action = Some True \<longrightarrow>
        runAction_enqueue env st actionId d isStreaming = (Inr False, st)
        \<and> runAction env st actionId d isStreaming = (Inr (), st))
     \<and> (isStreaming \<and> atype action \<noteq> Some File \<longrightarrow>
        runAction_enqueue env st actionId d isStreaming = (Inr False, st)
        \<and> runAction env st actionId d isStreaming = (Inr (), st))
     \<and> (executed action \<noteq> Some True \<and> \<not> (isStreaming \<and> atype action \<noteq> Some File) \<longrightarrow>
        (\<exists>st'. runAction_enqueue env st actionId d isStreaming = (Inr True, st')
           \<and> st' = st\<lparr>actions := (actions st)(actionId \<mapsto>
                                      (spread action d)\<lparr>executed := Some (\<not> isStreaming)\<rparr>),
                       currentExecutionPromise :=
                         currentExecutionPromise st @ [Execute actionId isStreaming]\<rparr>
           \<and> actions st' = (actions st)(actionId \<mapsto> (spread action d)\<lparr>executed := Some (\<not> isStreaming)\<rparr>)
           \<and> currentExecutionPromise st' = currentExecutionPromise st @ [Execute actionId isStreaming]
           \<and> runAction env st actionId d isStreaming = (Inr (), await_chain env st')))"
  by (auto simp: runAction_enqueue_def runAction_def updateAction_def actions_get_own Let_def)

theorem runAction_commits_once_witness:
  "actions (addAction (new_ActionRunner Map.empty True) ''a1'' (an_action Shell ''ls'')) ''a1''
     = Some (registered ''a1'' (an_action Shell ''ls''))
   \<and> (\<exists>st'. runAction_enqueue (sample_env (exits 0 []))
               (addAction (new_ActionRunner Map.empty True) ''a1'' (an_action Shell ''ls''))
               ''a1'' (an_action Shell ''ls'') False = (Inr True, st')
          \<and> map_option executed (actions st' ''a1'') = Some (Some True)
          \<and> currentExecutionPromise st' = [MarkRunning ''a1'', Execute ''a1'' False]
          \<and> runAction (sample_env (exits 0 []))
               (addAction (new_ActionRunner Map.empty True) ''a1'' (an_action Shell ''ls''))
               ''a1'' (an_action Shell ''ls'') False = (Inr (), await_chain (sample_env (exits 0 [])) st'))
   \<and> shellCommands (snd (runAction (sample_env (exits 0 []))
        (addAction (new_ActionRunner Map.empty True) ''a1'' (an_action Shell ''ls''))
        ''a1'' (an_action Shell ''ls'') False)) = [Some ''ls'']
   \<and> map_option status (actions (snd (runAction (sample_env (exits 0 []))
        (addAction (new_ActionRunner Map.empty True) ''a1'' (an_action Shell ''ls''))
        ''a1'' (an_action Shell ''ls'') False)) ''a1'') = Some (Some Complete)
   \<and> runAction (sample_env (exits 0 []))
        (addAction (new_ActionRunner Map.empty True) ''a1'' (an_action Shell ''ls''))
        ''a1'' (an_action Shell ''ls'') True
      = (Inr (), addAction (new_ActionRunner Map.empty True) ''a1'' (an_action Shell ''ls''))
   \<and> runAction (sample_env (exits 0 []))
        (updateAction (addAction (new_ActionRunner Map.empty True) ''a1'' (an_action Shell ''ls''))
           ''a1'' (\<lambda>a. a\<lparr>executed := Some True\<rparr>))
        ''a1'' (an_action Shell ''ls'') False
      = (Inr (), updateAction (addAction (new_ActionRunner Map.empty True) ''a1'' (an_action Shell ''ls''))
           ''a1'' (\<lambda>a. a\<lparr>executed := Some True\<rparr>))"
proof -
  let ?env = "sample_env (exits 0 [])"
  let ?d = "an_action Shell ''ls''"
  let ?st = "addAction (new_ActionRunner Map.empty True) ''a1'' ?d"
  let ?st1 = "updateAction ?st ''a1'' (\<lambda>a. a\<lparr>executed := Some True\<rparr>)"
  have a: "actions ?st ''a1'' = Some (registered ''a1'' ?d)"
    by (simp add: addAction_def new_ActionRunner_def actions_get_def Object_prototype_def)
  have p: "currentExecutionPromise ?st = [MarkRunning ''a1'']"
    by (simp add: addAction_def new_ActionRunner_def actions_get_def Object_prototype_def)
  have a1: "actions ?st1 ''a1'' = Some ((registered ''a1'' ?d)\<lparr>executed := Some True\<rparr>)"
    by (simp add: updateAction_own a)
  have f: "executed (registered ''a1'' ?d) \<noteq> Some True" "atype (registered ''a1'' ?d) \<noteq> Some File"
    "executed ((registered ''a1'' ?d)\<lparr>executed := Some True\<rparr>) = Some True"
    by (simp_all add: registered_def an_action_def)
  from runAction_commits_once
         [where st = ?st and actionId = "''a1''" and action = "registered ''a1'' ?d"
            and isStreaming = False and env = ?env and d = ?d] a f
  obtain st' where
    e: "runAction_enqueue ?env ?st ''a1'' ?d False = (Inr True, st')"
       "actions st' = (actions ?st)(''a1'' \<mapsto> (spread (registered ''a1'' ?d) ?d)\<lparr>executed := Some (\<not> False)\<rparr>)"
       "currentExecutionPromise st' = currentExecutionPromise ?st @ [Execute ''a1'' False]"
       "runAction ?env ?st ''a1'' ?d False = (Inr (), await_chain ?env st')"
    by blast
  have r: "shellCommands (snd (runAction ?env ?st ''a1'' ?d False)) = [Some ''ls'']
      \<and> map_option status (actions (snd (runAction ?env ?st ''a1'' ?d False)) ''a1'')
          = Some (Some Complete)"
    by (simp add: run_defs)
  from runAction_commits_once
         [where st = ?st and actionId = "''a1''" and action = "registered ''a1'' ?d"
            and isStreaming = True and env = ?env and d = ?d] a f
  have s: "runAction ?env ?st ''a1'' ?d True = (Inr (), ?st)"
    by blast
  from runAction_commits_once
         [where st = ?st1 and actionId = "''a1''"
            and action = "(registered ''a1'' ?d)\<lparr>executed := Some True\<rparr>"
            and isStreaming = False and env = ?env and d = ?d] a1 f
  have x: "runAction ?env ?st1 ''a1'' ?d False = (Inr (), ?st1)"
    by blast
  from e have "map_option executed (actions st' ''a1'') = Some (Some True)"
    by simp
  with e p a s x r show ?thesis
    by simp
qed

text \<open>
  C3. A unit of work that throws does not break the chain. The chain's catch takes the
  exception and logs it, so the unit ends fulfilled; \<^verbatim>\<open>runAction\<close> for a registered action
  never rejects, whatever the strategy does; and after a committed action, failed or
  not, the chain is idle again and the unit of the next committed action is appended
  and executed.
\<close>

theorem failing_unit_keeps_chain:
  "(executeAction env st actionId isStreaming = (Inl e, st') \<longrightarrow>
      run_work env st (Execute actionId isStreaming) = st'\<lparr>log := log st' @ [ChainCaught e]\<rparr>)
   \<and> (actions st actionId \<noteq> None \<longrightarrow> fst (runAction env st actionId d isStreaming) = Inr ())
   \<and> (actions st actionId = Some a \<and> executed a \<noteq> Some True \<and> \<not> (isStreaming \<and> atype a \<noteq> Some File) \<longrightarrow>
        currentExecutionPromise (snd (runAction env st actionId d isStreaming)) = []
        \<and> (\<forall>idB b dB sB.
              actions (snd (runAction env st actionId d isStreaming)) idB = Some b
              \<and> executed b \<noteq> Some True \<and> \<not> (sB \<and> atype b \<noteq> Some File) \<longrightarrow>
              (\<exists>stB. runAction_enqueue env (snd (runAction env st actionId d isStreaming)) idB dB sB
                        = (Inr True, stB)
                 \<and> currentExecutionPromise stB = [Execute idB sB]
                 \<and> runAction env (snd (runAction env st actionId d isStreaming)) idB dB sB
                     = (Inr (), run_work env (stB\<lparr>currentExecutionPromise := []\<rparr>) (Execute idB sB)))))"
proof (intro conjI impI allI)
  show "run_work env st (Execute actionId isStreaming) = st'\<lparr>log := log st' @ [ChainCaught e]\<rparr>"
    if "executeAction env st actionId isStreaming = (Inl e, st')"
    using that by simp
  show "fst (runAction env st actionId d isStreaming) = Inr ()" if "actions st actionId \<noteq> None"
    using that by (auto simp: runAction_def runAction_enqueue_def Let_def actions_get_def)
next
  assume h: "actions st actionId = Some a \<and> executed a \<noteq> Some True \<and> \<not> (isStreaming \<and> atype a \<noteq> Some File)"
  then show idle: "currentExecutionPromise (snd (runAction env st actionId d isStreaming)) = []"
    by (simp add: runAction_appends_and_runs(1))
  fix idB b dB sB
  let ?st1 = "snd (runAction env st actionId d isStreaming)"
  assume "actions ?st1 idB = Some b \<and> executed b \<noteq> Some True \<and> \<not> (sB \<and> atype b \<noteq> Some File)"
  then have "\<exists>stB. runAction_enqueue env ?st1 idB dB sB = (Inr True, stB)
             \<and> currentExecutionPromise stB = currentExecutionPromise ?st1 @ [Execute idB sB]
             \<and> runAction env ?st1 idB dB sB =
                 (Inr (), run_work env
                   (foldl (run_work env) (stB\<lparr>currentExecutionPromise := []\<rparr>) (currentExecutionPromise ?st1))
                   (Execute idB sB))"
    using runAction_appends_and_runs(2) [of ?st1 idB b sB env dB] by blast
  then show "\<exists>stB. runAction_enqueue env ?st1 idB dB sB = (Inr True, stB)
                 \<and> currentExecutionPromise stB = [Execute idB sB]
                 \<and> runAction env ?st1 idB dB sB
                     = (Inr (), run_work env (stB\<lparr>currentExecutionPromise := []\<rparr>) (Execute idB sB))"
    unfolding idle by simp
qed

theorem failing_unit_keeps_chain_witness:
  "fst (executeAction picky_env
          (snd (runAction_enqueue picky_env two_registered ''a'' (an_action Shell ''false'') False))
          ''a'' False)
     = Inl (ActionCommandError ''Failed To Execute Shell Command'' ''boom'')
   \<and> last (log (run_work picky_env
          (snd (runAction_enqueue picky_env two_registered ''a'' (an_action Shell ''false'') False))
          (Execute ''a'' False)))
     = ChainCaught (ActionCommandError ''Failed To Execute Shell Command'' ''boom'')
   \<and> fst (runAction picky_env two_registered ''a'' (an_action Shell ''false'') False) = Inr ()
   \<and> ChainCaught (ActionCommandError ''Failed To Execute Shell Command'' ''boom'')
       \<in> set (log (snd (runAction picky_env two_registered ''a'' (an_action Shell ''false'') False)))
   \<and> currentExecutionPromise
        (snd (runAction picky_env two_registered ''a'' (an_action Shell ''false'') False)) = []
   \<and> fst (runAction picky_env
        (snd (runAction picky_env two_registered ''a'' (an_action Shell ''false'') False))
        ''b'' (an_action Shell ''ls'') False) = Inr ()
   \<and> shellCommands (snd (runAction picky_env
        (snd (runAction picky_env two_registered ''a'' (an_action Shell ''false'') False))
        ''b'' (an_action Shell ''ls'') False)) = [Some ''false'', Some ''ls'']
   \<and> map_option status (actions (snd (runAction picky_env
        (snd (runAction picky_env two_registered ''a'' (an_action Shell ''false'') False))
        ''b'' (an_action Shell ''ls'') False)) ''b'') = Some (Some Complete)"
proof -
  let ?dA = "an_action Shell ''false''"
  let ?dB = "an_action Shell ''ls''"
  let ?st1 = "snd (runAction picky_env two_registered ''a'' ?dA False)"
  have a: "actions two_registered ''a'' = Some (registered ''a'' ?dA)"
    by (simp add: sample_defs addAction_def new_ActionRunner_def actions_get_def
          Object_prototype_def)
  have f: "executed (registered ''a'' ?dA) \<noteq> Some True"
    "executed ((registered ''b'' ?dB)\<lparr>status := Some Running\<rparr>) \<noteq> Some True"
    by (simp_all add: registered_def)
  have b: "actions ?st1 ''b'' = Some ((registered ''b'' ?dB)\<lparr>status := Some Running\<rparr>)"
    by (simp add: run_defs sample_defs)
  have x: "fst (executeAction picky_env
          (snd (runAction_enqueue picky_env two_registered ''a'' ?dA False)) ''a'' False)
     = Inl (ActionCommandError ''Failed To Execute Shell Command'' ''boom'')"
    by (simp add: run_defs sample_defs)
  have l: "ChainCaught (ActionCommandError ''Failed To Execute Shell Command'' ''boom'')
       \<in> set (log ?st1)"
    by (simp add: run_defs sample_defs)
  have r: "shellCommands (snd (runAction picky_env ?st1 ''b'' ?dB False)) = [Some ''false'', Some ''ls'']
    \<and> map_option status (actions (snd (runAction picky_env ?st1 ''b'' ?dB False)) ''b'')
        = Some (Some Complete)"
    by (simp add: run_defs sample_defs)
  note t = failing_unit_keeps_chain
             [where env = picky_env and st = two_registered and actionId = "''a''"
                and d = ?dA and isStreaming = False and a = "registered ''a'' ?dA"]
  from x obtain stx where
    ex: "executeAction picky_env (snd (runAction_enqueue picky_env two_registered ''a'' ?dA False))
           ''a'' False
         = (Inl (ActionCommandError ''Failed To Execute Shell Command'' ''boom''), stx)"
    by (cases "executeAction picky_env
                 (snd (runAction_enqueue picky_env two_registered ''a'' ?dA False)) ''a'' False")
       auto
  from failing_unit_keeps_chain
         [where env = picky_env
            and st = "snd (runAction_enqueue picky_env two_registered ''a'' ?dA False)"
            and actionId = "''a''" and isStreaming = False and st' = stx
            and e = "ActionCommandError ''Failed To Execute Shell Command'' ''boom''"] ex
  have "run_work picky_env (snd (runAction_enqueue picky_env two_registered ''a'' ?dA False))
          (Execute ''a'' False)
        = stx\<lparr>log := log stx
                  @ [ChainCaught (ActionCommandError ''Failed To Execute Shell Command'' ''boom'')]\<rparr>"
    by blast
  then have 0: "last (log (run_work picky_env
          (snd (runAction_enqueue picky_env two_registered ''a'' ?dA False)) (Execute ''a'' False)))
     = ChainCaught (ActionCommandError ''Failed To Execute Shell Command'' ''boom'')"
    by simp
  from t a f have 1: "fst (runAction picky_env two_registered ''a'' ?dA False) = Inr ()"
    by simp
  from t a f have 2: "currentExecutionPromise ?st1 = []"
    by blast
  from t a f b have "\<exists>stB. runAction picky_env ?st1 ''b'' ?dB False
        = (Inr (), run_work picky_env (stB\<lparr>currentExecutionPromise := []\<rparr>) (Execute ''b'' False))"
    by blast
  then have 3: "fst (runAction picky_env ?st1 ''b'' ?dB False) = Inr ()"
    by auto
  from x l r 0 1 2 3 show ?thesis by simp
qed

text \<open>
  C4. A shell action that is dispatched without streaming, whose token has not fired and
  is not fired by the shell: when the shell returns exit code 0 the action ends as
  \<^verbatim>\<open>complete\<close>; when it returns another exit code the strategy throws the classified error
  with header "Failed To Execute Shell Command" and with the captured output, or "No
  Output Available" when that is empty, and the action ends as \<^verbatim>\<open>failed\<close>.
\<close>

theorem shell_exit_code_decides:
  "actions st actionId = Some action \<and> atype action = Some Shell
   \<and> signal_aborted st action = Some False
   \<and> shellReady env = None \<and> shellAttached env
   \<and> abortFired (executeCommand env (length (shellCommands st)) (content action)) = False
   \<and> response (executeCommand env (length (shellCommands st)) (content action)) = Inr (Some (code, out))
   \<longrightarrow>
     (code = 0 \<longrightarrow>
        fst (executeAction env st actionId False) = Inr ()
        \<and> map_option status (actions (snd (executeAction env st actionId False)) actionId) = Some (Some Complete))
     \<and> (code \<noteq> 0 \<longrightarrow>
        fst (runShellAction env st action) =
          Inl (ActionCommandError ''Failed To Execute Shell Command''
                 (if out = [] then ''No Output Available'' else out))
        \<and> fst (executeAction env st actionId False) =
          Inl (ActionCommandError ''Failed To Execute Shell Command''
                 (if out = [] then ''No Output Available'' else out))
        \<and> map_option status (actions (snd (executeAction env st actionId False)) actionId) = Some (Some Failed)
        \<and> map_option error (actions (snd (executeAction env st actionId False)) actionId)
            = Some (Some ''Action failed''))"
proof (intro impI, elim conjE)
  assume a: "actions st actionId = Some action" and t: "atype action = Some Shell"
    and n: "signal_aborted st action = Some False"
    and r: "shellReady env = None" "shellAttached env"
    and f: "abortFired (executeCommand env (length (shellCommands st)) (content action)) = False"
    and p: "response (executeCommand env (length (shellCommands st)) (content action)) = Inr (Some (code, out))"
  let ?st0 = "updateAction st actionId (\<lambda>a. a\<lparr>status := Some Running\<rparr>)"
  let ?st1 = "?st0\<lparr>log := log ?st0 @ [Notice ''Convex action is not supported anymore. Use tool calls instead.'']\<rparr>"
  let ?err = "ActionCommandError ''Failed To Execute Shell Command''
                 (if out = [] then ''No Output Available'' else out)"
  have s: "run_strategy env ?st0 actionId action =
      (if code \<noteq> 0 then Inl ?err else Inr (), ?st1\<lparr>shellCommands := shellCommands ?st1 @ [content action]\<rparr>)"
    using runShellAction_quiet_call [of action env ?st1 code out] t r f p
    by (simp add: run_strategy_def updateAction_other)
  have d: "fst (runShellAction env st action) = (if code \<noteq> 0 then Inl ?err else Inr ())"
    using runShellAction_quiet_call [of action env st code out] t r f p by simp
  show "(code = 0 \<longrightarrow>
        fst (executeAction env st actionId False) = Inr ()
        \<and> map_option status (actions (snd (executeAction env st actionId False)) actionId) = Some (Some Complete))
     \<and> (code \<noteq> 0 \<longrightarrow>
        fst (runShellAction env st action) = Inl ?err
        \<and> fst (executeAction env st actionId False) = Inl ?err
        \<and> map_option status (actions (snd (executeAction env st actionId False)) actionId) = Some (Some Failed)
        \<and> map_option error (actions (snd (executeAction env st actionId False)) actionId)
            = Some (Some ''Action failed''))"
    using a t n s d
    by (simp add: executeAction_def Let_def executeAction_catch_def updateAction_other
          updateAction_actions call_onAlert_other actions_get_own signal_aborted_fields
          signal_aborted_updateAction)
qed

theorem shell_exit_code_decides_witness:
  "map_option status
     (actions (snd (executeAction (sample_env (exits 0 ''ok''))
        (addAction (new_ActionRunner Map.empty True) ''a1'' (an_action Shell ''ls'')) ''a1'' False))
        ''a1'') = Some (Some Complete)
   \<and> fst (executeAction (sample_env (exits 1 []))
        (addAction (new_ActionRunner Map.empty True) ''a1'' (an_action Shell ''ls'')) ''a1'' False)
      = Inl (ActionCommandError ''Failed To Execute Shell Command'' ''No Output Available'')
   \<and> map_option status
     (actions (snd (executeAction (sample_env (exits 1 []))
        (addAction (new_ActionRunner Map.empty True) ''a1'' (an_action Shell ''ls'')) ''a1'' False))
        ''a1'') = Some (Some Failed)"
proof -
  let ?st = "addAction (new_ActionRunner Map.empty True) ''a1'' (an_action Shell ''ls'')"
  let ?a = "registered ''a1'' (an_action Shell ''ls'')"
  have h: "actions ?st ''a1'' = Some ?a \<and> atype ?a = Some Shell
      \<and> signal_aborted ?st ?a = Some False"
    by (simp add: addAction_def new_ActionRunner_def registered_def an_action_def actions_get_def
          Object_prototype_def signal_aborted_def)
  have e0: "shellReady (sample_env (exits 0 ''ok'')) = None \<and> shellAttached (sample_env (exits 0 ''ok''))
      \<and> abortFired (executeCommand (sample_env (exits 0 ''ok'')) (length (shellCommands ?st)) (content ?a)) = False
      \<and> response (executeCommand (sample_env (exits 0 ''ok'')) (length (shellCommands ?st)) (content ?a))
          = Inr (Some (0, ''ok''))"
    by (simp add: sample_env_def exits_def registered_def an_action_def)
  have e1: "shellReady (sample_env (exits 1 [])) = None \<and> shellAttached (sample_env (exits 1 []))
      \<and> abortFired (executeCommand (sample_env (exits 1 [])) (length (shellCommands ?st)) (content ?a)) = False
      \<and> response (executeCommand (sample_env (exits 1 [])) (length (shellCommands ?st)) (content ?a))
          = Inr (Some (1, []))"
    by (simp add: sample_env_def exits_def registered_def an_action_def)
  from shell_exit_code_decides
         [where st = ?st and actionId = "''a1''" and action = ?a
            and env = "sample_env (exits 0 ''ok'')" and code = 0 and out = "''ok''"] h e0
  have 1: "map_option status
     (actions (snd (executeAction (sample_env (exits 0 ''ok'')) ?st ''a1'' False)) ''a1'') = Some (Some Complete)"
    by simp
  from shell_exit_code_decides
         [where st = ?st and actionId = "''a1''" and action = ?a
            and env = "sample_env (exits 1 [])" and code = 1 and out = "[]"] h e1
  have 2: "fst (executeAction (sample_env (exits 1 [])) ?st ''a1'' False)
      = Inl (ActionCommandError ''Failed To Execute Shell Command'' ''No Output Available'')
    \<and> map_option status
     (actions (snd (executeAction (sample_env (exits 1 [])) ?st ''a1'' False)) ''a1'') = Some (Some Failed)"
    by simp
  from 1 2 show ?thesis by simp
qed

text \<open>
  C5. On the dispatcher's failure path, which an exception reaches when the action's
  token has not fired, the alert callback is called exactly when the exception is a
  classified execution error; any other exception marks the action \<^verbatim>\<open>failed\<close> and is
  logged, and no alert is raised. This holds for the catch block of the dispatcher and
  for the catch handler of a start action alike, and these are where an exception of a
  strategy arrives.
\<close>

theorem alert_iff_classified:
  "(signal_aborted st action = Some False \<and> onAlert st \<longrightarrow>
     alerts (snd (executeAction_catch st actionId action e)) =
       alerts st @ (if instanceof_ActionCommandError e then [alert_of e] else [])
     \<and> alerts (start_catch st actionId action e) =
       alerts st @ (if instanceof_ActionCommandError e then [alert_of e] else [])
     \<and> (alerts (snd (executeAction_catch st actionId action e)) \<noteq> alerts st
          \<longleftrightarrow> instanceof_ActionCommandError e)
     \<and> (alerts (start_catch st actionId action e) \<noteq> alerts st
          \<longleftrightarrow> instanceof_ActionCommandError e)
     \<and> log (snd (executeAction_catch st actionId action e)) = log st @ [ActionFailed (atype action) e]
     \<and> log (start_catch st actionId action e) = log st @ [ActionFailed (atype action) e]
     \<and> (actions st actionId \<noteq> None \<longrightarrow>
          map_option status (actions (snd (executeAction_catch st actionId action e)) actionId)
            = Some (Some Failed)
          \<and> map_option status (actions (start_catch st actionId action e) actionId) = Some (Some Failed)))
   \<and> (actions st0 actionId = Some action \<and> atype action \<noteq> Some Start
        \<and> run_strategy env (updateAction st0 actionId (\<lambda>a. a\<lparr>status := Some Running\<rparr>)) actionId action
            = (Inl e, st) \<longrightarrow>
          executeAction env st0 actionId isStreaming = executeAction_catch st actionId action e)
   \<and> (runStartAction env st0 action = (Inl e, st) \<longrightarrow>
          start_settles env st0 actionId action = start_catch st actionId action e)"
  by (auto simp: executeAction_catch_def start_catch_def Let_def updateAction_other
        updateAction_actions call_onAlert_other executeAction_def start_settles_def
        actions_get_own)

theorem alert_iff_classified_witness:
  "alerts (snd (executeAction (sample_env (exits 1 ''boom''))
      (addAction (new_ActionRunner Map.empty True) ''a1'' (an_action Shell ''ls'')) ''a1'' False))
     = [ActionAlert ''error'' ''Dev Server Failed'' ''Failed To Execute Shell Command'' ''boom'']
   \<and> alerts (snd (executeAction_catch
        (addAction (new_ActionRunner Map.empty True) ''a1'' (an_action Shell ''ls'')) ''a1''
        (registered ''a1'' (an_action Shell ''ls'')) (Error ''Unknown tool: fly''))) = []
   \<and> map_option status (actions (snd (executeAction_catch
        (addAction (new_ActionRunner Map.empty True) ''a1'' (an_action Shell ''ls'')) ''a1''
        (registered ''a1'' (an_action Shell ''ls'')) (Error ''Unknown tool: fly''))) ''a1'')
      = Some (Some Failed)
   \<and> alerts (start_settles (sample_env (exits 1 ''boom''))
        (addAction (new_ActionRunner Map.empty True) ''s1'' (an_action Start ''npm run dev'')) ''s1''
        (registered ''s1'' (an_action Start ''npm run dev'')))
     = [ActionAlert ''error'' ''Dev Server Failed'' ''Failed To Start Application'' ''boom'']"
proof -
  let ?env = "sample_env (exits 1 ''boom'')"
  let ?reg = "addAction (new_ActionRunner Map.empty True) ''a1'' (an_action Shell ''ls'')"
  let ?a = "registered ''a1'' (an_action Shell ''ls'')"
  let ?e = "ActionCommandError ''Failed To Execute Shell Command'' ''boom''"
  let ?sreg = "addAction (new_ActionRunner Map.empty True) ''s1'' (an_action Start ''npm run dev'')"
  let ?sact = "registered ''s1'' (an_action Start ''npm run dev'')"
  let ?serr = "ActionCommandError ''Failed To Start Application'' ''boom''"
  obtain st where r: "run_strategy ?env (updateAction ?reg ''a1'' (\<lambda>a. a\<lparr>status := Some Running\<rparr>)) ''a1'' ?a
      = (Inl ?e, st)"
    by (simp add: run_defs)
  have h: "actions ?reg ''a1'' = Some ?a \<and> atype ?a \<noteq> Some Start"
    by (simp add: addAction_def new_ActionRunner_def registered_def an_action_def actions_get_def
          Object_prototype_def)
  from r have g: "signal_aborted st ?a = Some False \<and> onAlert st \<and> alerts st = []"
    by (auto simp: run_defs)
  have g0: "signal_aborted ?reg ?a = Some False \<and> onAlert ?reg \<and> alerts ?reg = []
      \<and> actions ?reg ''a1'' \<noteq> None"
    by (simp add: addAction_def new_ActionRunner_def registered_def actions_get_def
          Object_prototype_def signal_aborted_def)
  obtain st' where rs: "runStartAction ?env ?sreg ?sact = (Inl ?serr, st')"
    by (simp add: runStartAction_def run_defs)
  from rs have gs: "signal_aborted st' ?sact = Some False \<and> onAlert st' \<and> alerts st' = []"
    by (auto simp: runStartAction_def run_defs)
  note t = alert_iff_classified
             [where st = st and action = ?a and actionId = "''a1''" and e = ?e and st0 = ?reg
                and env = ?env and isStreaming = False]
  from t h r g have 1: "alerts (snd (executeAction ?env ?reg ''a1'' False)) = [alert_of ?e]"
    by simp
  from alert_iff_classified
         [where st = ?reg and action = ?a and actionId = "''a1''" and e = "Error ''Unknown tool: fly''"]
    g0
  have 2: "alerts (snd (executeAction_catch ?reg ''a1'' ?a (Error ''Unknown tool: fly''))) = []
     \<and> map_option status (actions (snd (executeAction_catch ?reg ''a1'' ?a (Error ''Unknown tool: fly'')))
          ''a1'') = Some (Some Failed)"
    by simp
  from alert_iff_classified
         [where st = st' and action = ?sact and actionId = "''s1''" and e = ?serr and st0 = ?sreg
            and env = ?env] rs gs
  have 3: "alerts (start_settles ?env ?sreg ''s1'' ?sact) = [alert_of ?serr]"
    by simp
  from 1 2 3 show ?thesis by (simp add: alert_of_def)
qed

text \<open>
  C6, as stated, fails in its last part: an exception of the tool dispatch does not
  leave the action \<^verbatim>\<open>failed\<close> when the action's token has fired, for then the
  dispatcher swallows the exception. Here a bash tool call runs against a shell that
  invokes the abort hook and exits with code 1: the future is resolved with the
  "Error:" message and the exception is thrown again, and the action ends as
  \<^verbatim>\<open>aborted\<close>.
\<close>

theorem toolUse_error_when_aborted:
  "fst (toolDispatch (sample_env (aborts_and_exits 1 ''boom''))
         (ensure_resolvers
            (updateAction (addAction (new_ActionRunner Map.empty True) ''a1'' (an_action ToolUse ''bash''))
               ''a1'' (\<lambda>a. a\<lparr>status := Some Running\<rparr>)) ''call-1'')
         (registered ''a1'' (an_action ToolUse ''bash''))
         \<lparr>state = Call, toolCallId = ''call-1'', toolName = ''bash'', args = ''ls''\<rparr>)
     = Inl (Error ''Process exited with code 1: boom'')
   \<and> toolCalls (snd (runAction (sample_env (aborts_and_exits 1 ''boom''))
        (addAction (new_ActionRunner Map.empty True) ''a1'' (an_action ToolUse ''bash''))
        ''a1'' (an_action ToolUse ''bash'') False)) ''call-1''
     = Some (Some ''Error: Process exited with code 1: boom'')
   \<and> map_option status (actions (snd (runAction (sample_env (aborts_and_exits 1 ''boom''))
        (addAction (new_ActionRunner Map.empty True) ''a1'' (an_action ToolUse ''bash''))
        ''a1'' (an_action ToolUse ''bash'') False)) ''a1'')
     = Some (Some Aborted)"
  by (simp add: run_defs tool_defs)

text \<open>
  C6, amended. When the tool dispatch of a toolUse action throws a value that has a
  text (any exception but \<^verbatim>\<open>undefined\<close> and \<^verbatim>\<open>null\<close>), the bridge resolves the future of
  the tool call id with a message that starts with "Error:" (the text of the
  exception, with "Error: " put in front unless it starts so already; a future that
  was resolved before keeps its value) and throws the same exception again. So whoever
  awaits the future receives a response, and the dispatcher records the action as
  \<^verbatim>\<open>failed\<close> unless the action's token has fired.
\<close>

theorem toolUse_error_resolves_and_rethrows:
  "(content action = Some c \<and> parseToolInvocation env c = Inr parsed \<and> state parsed = Call
    \<and> fst (toolDispatch env (ensure_resolvers st (toolCallId parsed)) action parsed) = Inl e
    \<and> toString e = Inr raw
    \<longrightarrow>
      fst (runToolUseAction env st actionId action) = Inl e
      \<and> (\<exists>v. toolCalls (snd (runToolUseAction env st actionId action)) (toolCallId parsed) = Some (Some v))
      \<and> (toolCalls st (toolCallId parsed) = None \<or> toolCalls st (toolCallId parsed) = Some None \<longrightarrow>
           toolCalls (snd (runToolUseAction env st actionId action)) (toolCallId parsed)
             = Some (Some (tool_error_message raw))))
   \<and> startsWith (tool_error_message raw) ''Error:''
   \<and> (\<not> startsWith raw ''Error:'' \<longrightarrow> tool_error_message raw = ''Error: '' @ raw)
   \<and> (startsWith raw ''Error:'' \<longrightarrow> tool_error_message raw = raw)
   \<and> (actions st actionId = Some action \<and> atype action = Some ToolUse
       \<and> fst (runToolUseAction env (updateAction st actionId (\<lambda>a. a\<lparr>status := Some Running\<rparr>))
                actionId action) = Inl e
       \<and> signal_aborted
            (snd (runToolUseAction env (updateAction st actionId (\<lambda>a. a\<lparr>status := Some Running\<rparr>))
                    actionId action))
            action = Some False
       \<longrightarrow> map_option status (actions (snd (executeAction env st actionId isStreaming)) actionId)
             = Some (Some Failed))"
proof (intro conjI impI)
  show "startsWith (tool_error_message raw) ''Error:''"
    by (rule tool_error_message_prefix)
  show "tool_error_message raw = ''Error: '' @ raw" if "\<not> startsWith raw ''Error:''"
    using that by (simp add: tool_error_message_def)
  show "tool_error_message raw = raw" if "startsWith raw ''Error:''"
    using that by (simp add: tool_error_message_def)
next
  assume h: "content action = Some c \<and> parseToolInvocation env c = Inr parsed \<and> state parsed = Call
    \<and> fst (toolDispatch env (ensure_resolvers st (toolCallId parsed)) action parsed) = Inl e
    \<and> toString e = Inr raw"
  then obtain st2 where
    d: "toolDispatch env (ensure_resolvers st (toolCallId parsed)) action parsed = (Inl e, st2)"
    by (cases "toolDispatch env (ensure_resolvers st (toolCallId parsed)) action parsed") auto
  from h have p: "parseToolInvocation env (case content action of None \<Rightarrow> ''undefined'' | Some c \<Rightarrow> c)
      = Inr parsed"
    by simp
  from h d p have r: "runToolUseAction env st actionId action =
      (Inl e, resolve (st2\<lparr>log := log st2 @ [ToolCallError e]\<rparr>) (toolCallId parsed)
                (tool_error_message raw))"
    by (simp add: runToolUseAction_raises)
  from toolDispatch_keeps [OF d] have t: "toolCalls st2 = toolCalls (ensure_resolvers st (toolCallId parsed))"
    by simp
  show "fst (runToolUseAction env st actionId action) = Inl e"
    using r by simp
  show "\<exists>v. toolCalls (snd (runToolUseAction env st actionId action)) (toolCallId parsed) = Some (Some v)"
    using r by (simp add: resolve_def split: option.splits)
  show "toolCalls (snd (runToolUseAction env st actionId action)) (toolCallId parsed)
             = Some (Some (tool_error_message raw))"
    if "toolCalls st (toolCallId parsed) = None \<or> toolCalls st (toolCallId parsed) = Some None"
    using that r t by (auto simp: resolve_def ensure_resolvers_def)
next
  let ?st0 = "updateAction st actionId (\<lambda>a. a\<lparr>status := Some Running\<rparr>)"
  assume h: "actions st actionId = Some action \<and> atype action = Some ToolUse
       \<and> fst (runToolUseAction env ?st0 actionId action) = Inl e
       \<and> signal_aborted (snd (runToolUseAction env ?st0 actionId action)) action = Some False"
  then obtain st1 where r: "runToolUseAction env ?st0 actionId action = (Inl e, st1)"
    by (cases "runToolUseAction env ?st0 actionId action") auto
  from h r have n: "signal_aborted st1 action = Some False" by simp
  have "executeAction env st actionId isStreaming = executeAction_catch st1 actionId action e"
    using h r by (simp add: executeAction_def Let_def run_strategy_def actions_get_own)
  then show "map_option status (actions (snd (executeAction env st actionId isStreaming)) actionId)
             = Some (Some Failed)"
    using n
    by (auto simp: executeAction_catch_def Let_def updateAction_actions call_onAlert_other)
qed

theorem toolUse_error_resolves_and_rethrows_witness:
  "fst (runToolUseAction (sample_env (exits 0 []))
          (addAction (new_ActionRunner Map.empty True) ''t1'' (an_action ToolUse ''fly''))
          ''t1'' (registered ''t1'' (an_action ToolUse ''fly'')))
     = Inl (Error ''Unknown tool: fly'')
   \<and> toString (Error ''Unknown tool: fly'') = Inr ''Error: Unknown tool: fly''
   \<and> toolCalls (snd (runToolUseAction (sample_env (exits 0 []))
          (addAction (new_ActionRunner Map.empty True) ''t1'' (an_action ToolUse ''fly''))
          ''t1'' (registered ''t1'' (an_action ToolUse ''fly'')))) ''call-1''
     = Some (Some ''Error: Unknown tool: fly'')
   \<and> map_option status (actions (snd (executeAction (sample_env (exits 0 []))
          (addAction (new_ActionRunner Map.empty True) ''t1'' (an_action ToolUse ''fly''))
          ''t1'' False)) ''t1'')
     = Some (Some Failed)"
proof -
  let ?env = "sample_env (exits 0 [])"
  let ?st = "addAction (new_ActionRunner Map.empty True) ''t1'' (an_action ToolUse ''fly'')"
  let ?a = "registered ''t1'' (an_action ToolUse ''fly'')"
  let ?p = "\<lparr>state = Call, toolCallId = ''call-1'', toolName = ''fly'', args = ''ls''\<rparr>"
  let ?e = "Error ''Unknown tool: fly''"
  have p: "content ?a = Some ''fly'' \<and> parseToolInvocation ?env ''fly'' = Inr ?p \<and> state ?p = Call"
    by (simp add: sample_env_def registered_def an_action_def)
  have i: "toolCallId ?p = ''call-1''"
    by simp
  have d: "fst (toolDispatch ?env (ensure_resolvers ?st (toolCallId ?p)) ?a ?p) = Inl ?e"
    by (simp add: toolDispatch_def)
  have x: "toString ?e = Inr ''Error: Unknown tool: fly''"
    by (simp add: named_toString_def)
  have n: "toolCalls ?st (toolCallId ?p) = None"
    by (simp add: addAction_def new_ActionRunner_def actions_get_def Object_prototype_def)
  have a: "actions ?st ''t1'' = Some ?a \<and> atype ?a = Some ToolUse"
    by (simp add: addAction_def new_ActionRunner_def registered_def an_action_def actions_get_def
          Object_prototype_def)
  have r: "fst (runToolUseAction ?env (updateAction ?st ''t1'' (\<lambda>a. a\<lparr>status := Some Running\<rparr>)) ''t1'' ?a)
        = Inl ?e
      \<and> signal_aborted
           (snd (runToolUseAction ?env (updateAction ?st ''t1'' (\<lambda>a. a\<lparr>status := Some Running\<rparr>)) ''t1'' ?a))
           ?a = Some False"
    by (simp add: run_defs tool_defs)
  have v: "tool_error_message ''Error: Unknown tool: fly'' = ''Error: Unknown tool: fly''"
    by (simp add: tool_defs)
  note t = toolUse_error_resolves_and_rethrows
             [where env = ?env and action = ?a and c = "''fly''" and parsed = ?p and st = ?st
                and e = ?e and raw = "''Error: Unknown tool: fly''"
                and actionId = "''t1''" and isStreaming = False]
  from t p d x have 1: "fst (runToolUseAction ?env ?st ''t1'' ?a) = Inl ?e"
    by blast
  from t p d x n have "toolCalls (snd (runToolUseAction ?env ?st ''t1'' ?a)) (toolCallId ?p)
      = Some (Some (tool_error_message ''Error: Unknown tool: fly''))"
    by blast
  then have 2: "toolCalls (snd (runToolUseAction ?env ?st ''t1'' ?a)) ''call-1''
      = Some (Some ''Error: Unknown tool: fly'')"
    unfolding v i .
  from t a r have 3: "map_option status (actions (snd (executeAction ?env ?st ''t1'' False)) ''t1'')
      = Some (Some Failed)"
    by blast
  from 1 2 3 x show ?thesis by simp
qed

text \<open>
  C7. For an npmInstall action the content's leading \<^verbatim>\<open>npm install\<close>, or else its leading
  \<^verbatim>\<open>npm i\<close>, is stripped, and what remains, with its leading space, is wrapped again as
  \<^verbatim>\<open>npm install <remainder>\<close> and handed to the shell strategy: the content
  \<^verbatim>\<open>npm install lodash\<close> gives the shell exactly \<^verbatim>\<open>npm install  lodash\<close>. If the remainder
  contains \<^verbatim>\<open>convex\<close> as a whole word the strategy returns without invoking the shell and
  without touching the store.
\<close>

theorem npmInstall_normalizes_and_skips_convex:
  "atype action = Some NpmInstall \<and> content action = Some c \<longrightarrow>
     (\<not> whole_word_convex (normalizedCommand c) \<longrightarrow>
        runNpmInstallAction env st action =
          runShellAction env st
            (action\<lparr>atype := Some Shell,
                    content := Some (''npm install '' @ normalizedCommand c)\<rparr>)
        \<and> (shellReady env = None \<and> shellAttached env \<longrightarrow>
             shellCommands (snd (runNpmInstallAction env st action)) =
               shellCommands st @ [Some (''npm install '' @ normalizedCommand c)]))
     \<and> (whole_word_convex (normalizedCommand c) \<longrightarrow>
          fst (runNpmInstallAction env st action) = Inr ()
          \<and> shellCommands (snd (runNpmInstallAction env st action)) = shellCommands st
          \<and> actions (snd (runNpmInstallAction env st action)) = actions st)
     \<and> normalizedCommand (''npm install'' @ r) = r
     \<and> (\<not> startsWith (''npm i'' @ r) ''npm install'' \<longrightarrow> normalizedCommand (''npm i'' @ r) = r)
     \<and> ''npm install '' @ normalizedCommand ''npm install lodash'' = ''npm install  lodash''
     \<and> \<not> whole_word_convex (normalizedCommand ''npm install lodash'')"
  unfolding match_convex_whole_word [symmetric]
  apply (intro impI conjI)
  subgoal by (simp add: runNpmInstallAction_def)
  subgoal by (simp add: runNpmInstallAction_def runShellAction_commands)
  subgoal by (simp add: runNpmInstallAction_def)
  subgoal by (simp add: runNpmInstallAction_def)
  subgoal by (simp add: runNpmInstallAction_def)
  subgoal by (rule normalizedCommand_install)
  subgoal by (rule normalizedCommand_i)
  subgoal by (simp add: normalizedCommand_def startsWith_def slice_def)
  subgoal by (simp add: normalizedCommand_def startsWith_def slice_def match_convex_def word_char_def)
  done

theorem npmInstall_normalizes_and_skips_convex_witness:
  "shellCommands (snd (runNpmInstallAction (sample_env (exits 0 [])) (new_ActionRunner Map.empty True)
      (registered ''a1'' (an_action NpmInstall ''npm install lodash'')))) = [Some ''npm install  lodash'']
   \<and> whole_word_convex (normalizedCommand ''npm install convex@1.2 lodash'')
   \<and> shellCommands (snd (runNpmInstallAction (sample_env (exits 0 [])) (new_ActionRunner Map.empty True)
      (registered ''a1'' (an_action NpmInstall ''npm install convex@1.2 lodash'')))) = []
   \<and> \<not> startsWith (''npm i'' @ '' lodash'') ''npm install''
   \<and> normalizedCommand (''npm i'' @ '' lodash'') = '' lodash''"
proof -
  let ?env = "sample_env (exits 0 [])"
  let ?st = "new_ActionRunner Map.empty True"
  let ?a1 = "registered ''a1'' (an_action NpmInstall ''npm install lodash'')"
  let ?a2 = "registered ''a1'' (an_action NpmInstall ''npm install convex@1.2 lodash'')"
  have t: "atype ?a1 = Some NpmInstall" "atype ?a2 = Some NpmInstall"
    by (simp_all add: registered_def an_action_def)
  have c: "content ?a1 = Some ''npm install lodash''"
    "content ?a2 = Some ''npm install convex@1.2 lodash''"
    by (simp_all add: registered_def an_action_def)
  have n1: "normalizedCommand ''npm install lodash'' = '' lodash''"
    by (simp add: normalizedCommand_def startsWith_def slice_def)
  have w1: "\<not> whole_word_convex (normalizedCommand ''npm install lodash'')"
    unfolding match_convex_whole_word [symmetric]
    by (simp add: normalizedCommand_def startsWith_def slice_def match_convex_def word_char_def)
  have w2: "whole_word_convex (normalizedCommand ''npm install convex@1.2 lodash'')"
    unfolding match_convex_whole_word [symmetric]
    by (simp add: normalizedCommand_def startsWith_def slice_def match_convex_def word_char_def)
  have e: "shellReady ?env = None \<and> shellAttached ?env"
    by (simp add: sample_env_def)
  have s: "shellCommands ?st = []"
    by (simp add: new_ActionRunner_def)
  have i: "\<not> startsWith (''npm i'' @ '' lodash'') ''npm install''"
    by (simp add: startsWith_def)
  from npmInstall_normalizes_and_skips_convex
         [where action = ?a1 and c = "''npm install lodash''" and env = ?env and st = ?st
            and r = "'' lodash''"] t c w1 e
  have r1: "shellCommands (snd (runNpmInstallAction ?env ?st ?a1)) =
      shellCommands ?st @ [Some (''npm install '' @ normalizedCommand ''npm install lodash'')]"
    by blast
  from npmInstall_normalizes_and_skips_convex
         [where action = ?a2 and c = "''npm install convex@1.2 lodash''" and env = ?env
            and st = ?st and r = "'' lodash''"] t c w2 i
  have r2: "shellCommands (snd (runNpmInstallAction ?env ?st ?a2)) = shellCommands ?st"
    and r3: "normalizedCommand (''npm i'' @ '' lodash'') = '' lodash''"
    by blast+
  from r1 r2 r3 w2 i show ?thesis
    unfolding s n1 by simp
qed

text \<open>
  C8, as stated, fails: before it looks at the lines the function rewrites carriage
  returns, so an output with a carriage return is not returned line for line even when
  no line is banned. Here the output \<^verbatim>\<open>a\r\nb\<close> comes back as \<^verbatim>\<open>a\nb\<close>.
\<close>

theorem cleanConvexOutput_rewrites_carriage_return:
  "cleanConvexOutput ''npm run lint'' (''a'' @ [CR, LF] @ ''b'') = ''a'' @ [LF] @ ''b''
   \<and> omit_banned_lines (''a'' @ [CR, LF] @ ''b'') = ''a'' @ [CR, LF] @ ''b''
   \<and> cleanConvexOutput ''npm run lint'' (''a'' @ [CR, LF] @ ''b'')
       \<noteq> omit_banned_lines (''a'' @ [CR, LF] @ ''b'')"
  by (simp add: cleanConvexOutput_def omit_banned_lines_def banned_code [symmetric]
        BANNED_LINES_def CR_def LF_def startsWith_def)

text \<open>
  C8, amended. For the command \<^verbatim>\<open>npm run lint\<close> and an output without carriage returns,
  the function returns the lines of the output without those that contain a banned
  substring, in their order (and, unless every line is banned, the lines of the result
  are exactly the lines that are kept); for every other command it returns the output
  as it is.
\<close>

theorem cleanConvexOutput_omits_banned_lines:
  "(CR \<notin> set out \<longrightarrow> cleanConvexOutput ''npm run lint'' out = omit_banned_lines out)
   \<and> (CR \<notin> set out \<and> filter (\<lambda>line. \<not> banned line) (js_split out LF) \<noteq> [] \<longrightarrow>
        js_split (cleanConvexOutput ''npm run lint'' out) LF
          = filter (\<lambda>line. \<not> banned line) (js_split out LF))
   \<and> (command \<noteq> ''npm run lint'' \<longrightarrow> cleanConvexOutput command out = out)"
proof (intro conjI impI)
  show "cleanConvexOutput ''npm run lint'' out = omit_banned_lines out" if "CR \<notin> set out"
    using that
    by (simp add: cleanConvexOutput_def omit_banned_lines_def js_replace_absent banned_code)
  show "js_split (cleanConvexOutput ''npm run lint'' out) LF
          = filter (\<lambda>line. \<not> banned line) (js_split out LF)"
    if "CR \<notin> set out \<and> filter (\<lambda>line. \<not> banned line) (js_split out LF) \<noteq> []"
    using that by (simp add: lines_of_cleaned)
  show "cleanConvexOutput command out = out" if "command \<noteq> ''npm run lint''"
    using that by (simp add: cleanConvexOutput_def)
qed

theorem cleanConvexOutput_omits_banned_lines_witness:
  "CR \<notin> set (''a'' @ [LF] @ ''transforming (12) modules'' @ [LF] @ ''b'')
   \<and> cleanConvexOutput ''npm run lint'' (''a'' @ [LF] @ ''transforming (12) modules'' @ [LF] @ ''b'')
       = ''a'' @ [LF] @ ''b''
   \<and> filter (\<lambda>line. \<not> banned line)
        (js_split (''a'' @ [LF] @ ''transforming (12) modules'' @ [LF] @ ''b'') LF) = [''a'', ''b'']
   \<and> js_split
        (cleanConvexOutput ''npm run lint'' (''a'' @ [LF] @ ''transforming (12) modules'' @ [LF] @ ''b''))
        LF = [''a'', ''b'']
   \<and> ''npm run build'' \<noteq> ''npm run lint''
   \<and> cleanConvexOutput ''npm run build'' (''a'' @ [LF] @ ''transforming (12) modules'' @ [LF] @ ''b'')
       = ''a'' @ [LF] @ ''transforming (12) modules'' @ [LF] @ ''b''"
  using cleanConvexOutput_omits_banned_lines
          [of "''a'' @ [LF] @ ''transforming (12) modules'' @ [LF] @ ''b''" "''npm run build''"]
  by (simp add: omit_banned_lines_def banned_code [symmetric] BANNED_LINES_def CR_def LF_def
        startsWith_def)

text \<open>
  C9. \<^verbatim>\<open>runAction\<close> for an identifier that was never registered reaches the trap, and
  throws before anything is stored or appended, when the lookup in the store gives
  \<^verbatim>\<open>undefined\<close> (\<open>runAction_unknown_id_raises\<close>). The store is a plain object,
  though, and for an identifier that names a member of \<^verbatim>\<open>Object.prototype\<close> the lookup
  gives that member, which passes the guard. Here \<^verbatim>\<open>runAction\<close> is called on a new
  runner, where nothing was ever registered, for the identifier \<^verbatim>\<open>constructor\<close>: with
  \<open>isStreaming\<close> it returns without a trace, and without it the action is stored,
  its unit of work is appended and run, and the shell is given the command.
\<close>

theorem runAction_inherited_id_skips_trap:
  "actions (new_ActionRunner Map.empty True) ''constructor'' = None
   \<and> runAction (sample_env (exits 0 ''ok'')) (new_ActionRunner Map.empty True) ''constructor''
        (an_action Shell ''ls'') True
      = (Inr (), new_ActionRunner Map.empty True)
   \<and> runAction_enqueue (sample_env (exits 0 ''ok'')) (new_ActionRunner Map.empty True)
        ''constructor'' (an_action Shell ''ls'') False
      = (Inr True,
         (new_ActionRunner Map.empty True)
           \<lparr>actions := [''constructor'' \<mapsto>
                         no_fields\<lparr>atype := Some Shell, content := Some ''ls'',
                                   executed := Some True\<rparr>],
            currentExecutionPromise := [Execute ''constructor'' False]\<rparr>)
   \<and> fst (runAction (sample_env (exits 0 ''ok'')) (new_ActionRunner Map.empty True)
        ''constructor'' (an_action Shell ''ls'') False) = Inr ()
   \<and> shellCommands (snd (runAction (sample_env (exits 0 ''ok'')) (new_ActionRunner Map.empty True)
        ''constructor'' (an_action Shell ''ls'') False)) = [Some ''ls'']"
  by (simp add: run_defs)

text \<open>
  C10. Every classified execution error has a message that begins with
  "Failed To Execute Shell Command: " followed by its header, whatever the header is,
  and then the output; the header and output fields are the constructor's arguments.
  So the error of a failed build (header "Build Failed") and of a failed start (header
  "Failed To Start Application") carry the shell-command prefix in their message too,
  with the header and the output of their own strategy.
\<close>

theorem classified_message_prefix:
  "message (ActionCommandError h out) =
     ''Failed To Execute Shell Command: '' @ h @ [LF, LF] @ ''Output:'' @ [LF] @ out
   \<and> err_header (ActionCommandError h out) = h
   \<and> err_output (ActionCommandError h out) = out
   \<and> startsWith (message (ActionCommandError h out)) (''Failed To Execute Shell Command: '' @ h)
   \<and> (atype action = Some Build \<and> webcontainer env = Inr workdir \<and> spawnBuild env = Inr (code, captured)
        \<and> code \<noteq> 0 \<longrightarrow>
          fst (runBuildAction env st action) =
            Inl (ActionCommandError ''Build Failed''
                   (if captured = [] then ''No Output Available'' else captured))
          \<and> startsWith
               (message (ActionCommandError ''Build Failed''
                           (if captured = [] then ''No Output Available'' else captured)))
               ''Failed To Execute Shell Command: Build Failed'')
   \<and> (atype action = Some Start \<and> shellReady env = None \<and> shellAttached env
        \<and> (abortFired (executeCommand env (length (shellCommands st)) (content action))
              \<longrightarrow> abortSignal action \<noteq> None)
        \<and> response (executeCommand env (length (shellCommands st)) (content action))
            = Inr (Some (code, captured))
        \<and> code \<noteq> 0 \<longrightarrow>
          fst (runStartAction env st action) =
            Inl (ActionCommandError ''Failed To Start Application''
                   (if captured = [] then ''No Output Available'' else captured))
          \<and> startsWith
               (message (ActionCommandError ''Failed To Start Application''
                           (if captured = [] then ''No Output Available'' else captured)))
               ''Failed To Execute Shell Command: Failed To Start Application'')"
  by (auto simp: startsWith_def runBuildAction_def runStartAction_def shell_executeCommand_def
        Let_def exitCode_nonzero_def output_or_def)

theorem classified_message_prefix_witness:
  "fst (runBuildAction (sample_env (exits 0 [])) (new_ActionRunner Map.empty True)
          (registered ''b1'' (an_action Build [])))
     = Inl (ActionCommandError ''Build Failed'' ''error TS2304'')
   \<and> message (ActionCommandError ''Build Failed'' ''error TS2304'')
     = ''Failed To Execute Shell Command: Build Failed'' @ [LF, LF] @ ''Output:'' @ [LF] @ ''error TS2304''
   \<and> fst (runStartAction (sample_env (exits 1 [])) (new_ActionRunner Map.empty True)
          (registered ''s1'' (an_action Start ''npm run dev'')))
     = Inl (ActionCommandError ''Failed To Start Application'' ''No Output Available'')"
proof -
  let ?st = "new_ActionRunner Map.empty True"
  have b: "atype (registered ''b1'' (an_action Build [])) = Some Build
      \<and> webcontainer (sample_env (exits 0 [])) = Inr ''/home/project''
      \<and> spawnBuild (sample_env (exits 0 [])) = Inr (1, ''error TS2304'') \<and> (1::int) \<noteq> 0"
    by (simp add: registered_def an_action_def sample_env_def)
  have s: "atype (registered ''s1'' (an_action Start ''npm run dev'')) = Some Start
      \<and> shellReady (sample_env (exits 1 [])) = None \<and> shellAttached (sample_env (exits 1 []))
      \<and> \<not> abortFired (executeCommand (sample_env (exits 1 [])) (length (shellCommands ?st))
            (content (registered ''s1'' (an_action Start ''npm run dev''))))
      \<and> response (executeCommand (sample_env (exits 1 [])) (length (shellCommands ?st))
            (content (registered ''s1'' (an_action Start ''npm run dev''))))
          = Inr (Some (1, [])) \<and> (1::int) \<noteq> 0"
    by (simp add: registered_def an_action_def sample_env_def exits_def)
  from classified_message_prefix [where action = "registered ''b1'' (an_action Build [])" and env = "sample_env (exits 0 [])"
      and workdir = "''/home/project''" and code = 1 and captured = "''error TS2304''" and st = ?st
      and h = "''Build Failed''" and out = "''error TS2304''"] b
  have 1: "fst (runBuildAction (sample_env (exits 0 [])) ?st (registered ''b1'' (an_action Build [])))
     = Inl (ActionCommandError ''Build Failed'' ''error TS2304'')"
    and 2: "message (ActionCommandError ''Build Failed'' ''error TS2304'')
     = ''Failed To Execute Shell Command: '' @ ''Build Failed'' @ [LF, LF] @ ''Output:'' @ [LF] @ ''error TS2304''"
    by simp_all
  from classified_message_prefix [where action = "registered ''s1'' (an_action Start ''npm run dev'')"
      and env = "sample_env (exits 1 [])" and code = 1 and captured = "[]" and st = ?st] s
  have 3: "fst (runStartAction (sample_env (exits 1 [])) ?st (registered ''s1'' (an_action Start ''npm run dev'')))
     = Inl (ActionCommandError ''Failed To Start Application'' ''No Output Available'')"
    by simp
  from 1 2 3 show ?thesis by simp
qed

end
